theory Spec2Isabelle
  imports Complex_Main "HOL-Library.Word" "HOL-Library.AList"
begin

section \<open>The GSC wallet and ledger service (src/services/gscBlockchain.ts)\<close>

text \<open>
  A shallow embedding of the class \<^verbatim>\<open>GSCBlockchainService\<close> and of the one handler of
  \<^verbatim>\<open>GSCWalletManager.tsx\<close> that calls its mnemonic derivation.

  Conventions of the embedding.
  \<^item> A JavaScript \<^verbatim>\<open>number\<close> is a \<^typ>\<open>real\<close> that stands for a double; a decimal literal
    of the source is written as it is. Two numbers are compared as reals, as doubles are,
    and there is no NaN and no infinity. The truthiness test of a number (\<^verbatim>\<open>x || d\<close>)
    is the test \<open>x \<noteq> 0\<close>. The sum and the difference of two numbers are rounded to a
    double by the platform, and are parameters of the model.
  \<^item> A JavaScript string is a \<^typ>\<open>string\<close>; addresses, keys and digests are ASCII, so
    \<^verbatim>\<open>length\<close>, \<^verbatim>\<open>substring\<close> and \<^verbatim>\<open>startsWith\<close> count characters as the source does,
    and \<^verbatim>\<open>TextEncoder.encode\<close> is the identity.
  \<^item> An object used as a dictionary (\<^verbatim>\<open>balances\<close>) is an association list in insertion
    order, read with \<^const>\<open>map_of\<close> and written with \<^const>\<open>AList.update\<close>.
  \<^item> An optional field, and a field that a JSON document may leave out, is an
    \<^typ>\<open>'a option\<close>.
  \<^item> A \<^verbatim>\<open>throw\<close> is the left injection of a sum; a function that can throw after it has
    mutated the service returns the mutated service beside the error.
  \<^item> What the platform supplies is a parameter: the SHA-256 digest of
    \<^verbatim>\<open>crypto.subtle.digest\<close>, the rendering of a number inside a template literal, the
    operators \<^verbatim>\<open>+\<close> and \<^verbatim>\<open>-\<close> on numbers, the clock, and the random bytes of
    \<^verbatim>\<open>crypto.getRandomValues\<close>.
\<close>

subsection \<open>Strings\<close>

definition startsWith :: "string \<Rightarrow> string \<Rightarrow> bool" where
  \<comment> \<open>\<^verbatim>\<open>s.startsWith(p)\<close>, written \<open>startsWith p s\<close>\<close>
  "startsWith p s = (take (length p) s = p)"

definition substring :: "string \<Rightarrow> nat \<Rightarrow> nat \<Rightarrow> string" where
  \<comment> \<open>\<^verbatim>\<open>s.substring(a, b)\<close> for \<open>a \<le> b\<close>; indices beyond the end are clamped\<close>
  "substring s a b = take (b - a) (drop a s)"

definition substringFrom :: "string \<Rightarrow> nat \<Rightarrow> string" where
  \<comment> \<open>\<^verbatim>\<open>s.substring(a)\<close>\<close>
  "substringFrom s a = drop a s"

definition padStart :: "nat \<Rightarrow> char \<Rightarrow> string \<Rightarrow> string" where
  \<comment> \<open>\<^verbatim>\<open>s.padStart(n, c)\<close> for a one-character pad\<close>
  "padStart n c s = replicate (n - length s) c @ s"

definition isWhitespace :: "char \<Rightarrow> bool" where
  \<comment> \<open>the ASCII members of the class \<^verbatim>\<open>\s\<close>: space, tab, line feed, vertical tab, form
     feed, carriage return\<close>
  "isWhitespace c = (c \<in> set [CHR '' '', CHR 0x09, CHR 0x0A, CHR 0x0B, CHR 0x0C, CHR 0x0D])"

definition trim :: "string \<Rightarrow> string" where
  "trim s = rev (dropWhile isWhitespace (rev (dropWhile isWhitespace s)))"

fun splitWhitespace :: "bool \<Rightarrow> string \<Rightarrow> string \<Rightarrow> string list" where
  \<comment> \<open>\<^verbatim>\<open>s.split(/\s+/)\<close> is \<open>splitWhitespace False [] s\<close>: the flag says that a run of
     whitespace is being skipped, the second argument is the word being read, reversed\<close>
  "splitWhitespace skipping w [] = [rev w]"
| "splitWhitespace skipping w (c # cs) =
     (if isWhitespace c
      then (if skipping then splitWhitespace True w cs else rev w # splitWhitespace True [] cs)
      else splitWhitespace False (c # w) cs)"

fun joinWith :: "string \<Rightarrow> string list \<Rightarrow> string" where
  \<comment> \<open>\<^verbatim>\<open>xs.join(sep)\<close>\<close>
  "joinWith sep [] = []"
| "joinWith sep [x] = x"
| "joinWith sep (x # y # ys) = x @ sep @ joinWith sep (y # ys)"

subsection \<open>Hexadecimal rendering of bytes\<close>

definition hexDigits :: string where
  "hexDigits = ''0123456789abcdef''"

definition hexDigit :: "nat \<Rightarrow> char" where
  "hexDigit d = hexDigits ! d"

fun toString16 :: "nat \<Rightarrow> string" where
  \<comment> \<open>\<^verbatim>\<open>n.toString(16)\<close> for a non-negative integer\<close>
  "toString16 n = (if n < 16 then [hexDigit n] else toString16 (n div 16) @ [hexDigit (n mod 16)])"

definition byteToHex :: "8 word \<Rightarrow> string" where
  \<comment> \<open>\<^verbatim>\<open>b.toString(16).padStart(2, '0')\<close> for an element of a \<^verbatim>\<open>Uint8Array\<close>\<close>
  "byteToHex b = padStart 2 (CHR ''0'') (toString16 (unat b))"

definition bytesToHex :: "8 word list \<Rightarrow> string" where
  \<comment> \<open>\<^verbatim>\<open>Array.from(bytes).map(b => b.toString(16).padStart(2, '0')).join('')\<close>\<close>
  "bytesToHex bs = concat (map byteToHex bs)"

definition isLowerHex :: "char \<Rightarrow> bool" where
  \<comment> \<open>the character class \<^verbatim>\<open>[0-9a-f]\<close>\<close>
  "isLowerHex c = (c \<in> set hexDigits)"

definition isHex :: "char \<Rightarrow> bool" where
  \<comment> \<open>the character class \<^verbatim>\<open>[0-9a-fA-F]\<close>\<close>
  "isHex c = (c \<in> set (hexDigits @ ''ABCDEF''))"

subsection \<open>The platform\<close>

text \<open>
  \<open>sha256\<close> is \<^verbatim>\<open>crypto.subtle.digest('SHA-256', data)\<close>: the 256 bits of the digest of the
  bytes of a string. \<open>numberToString\<close> is the conversion of a number inside a template
  literal (\<^verbatim>\<open>`${x}`\<close>). \<open>numberAdd\<close> and \<open>numberSub\<close> are the operators \<^verbatim>\<open>x + y\<close> and
  \<^verbatim>\<open>x - y\<close> on two numbers: the sum and the difference of IEEE 754, rounded to the nearest
  double, which are not the exact ones (\<^verbatim>\<open>0.2 + 0.1\<close> is greater than \<^verbatim>\<open>0.3\<close>, and
  \<^verbatim>\<open>0.7 + 0.1\<close> is less than \<^verbatim>\<open>0.8\<close>). All four are pure functions of their arguments, and
  nothing else is assumed of them.
\<close>

record platform =
  sha256 :: "string \<Rightarrow> 256 word"
  numberToString :: "real \<Rightarrow> string"
  numberAdd :: "real \<Rightarrow> real \<Rightarrow> real"
  numberSub :: "real \<Rightarrow> real \<Rightarrow> real"

definition digestBytes :: "256 word \<Rightarrow> 8 word list" where
  \<comment> \<open>\<^verbatim>\<open>Array.from(new Uint8Array(hashBuffer))\<close>: the 32 bytes of the digest, first byte
     first\<close>
  "digestBytes h = map (\<lambda>i. ucast (drop_bit (8 * (31 - i)) h)) [0..<32]"

text \<open>
  The clock of one call: \<open>dateNow\<close> is \<^verbatim>\<open>Date.now()\<close> in milliseconds and \<open>dateIso\<close> is
  \<^verbatim>\<open>new Date().toISOString()\<close>. One call of the service reads one clock.
\<close>

record clock =
  dateNow :: int
  dateIso :: string

subsection \<open>Keys and addresses\<close>

definition generateSecurePrivateKey :: "8 word list \<Rightarrow> string" where
  \<comment> \<open>the argument is the \<^verbatim>\<open>Uint8Array(32)\<close> after \<^verbatim>\<open>crypto.getRandomValues\<close> has filled it\<close>
  "generateSecurePrivateKey array = bytesToHex array"

definition generatePublicKeyFromPrivate :: "platform \<Rightarrow> string \<Rightarrow> string" where
  "generatePublicKeyFromPrivate pf privateKey = bytesToHex (digestBytes (sha256 pf privateKey))"

definition addressOfKey :: "string \<Rightarrow> string" where
  \<comment> \<open>\<^verbatim>\<open>`GSC1${privateKey.substring(0, 32)}`\<close>, the address expression of createWallet,
     importWallet and generateAddressFromMnemonic\<close>
  "addressOfKey privateKey = ''GSC1'' @ substring privateKey 0 32"

definition matchesAddressPattern :: "string \<Rightarrow> bool" where
  \<comment> \<open>the pattern \<^verbatim>\<open>GSC1[0-9a-f]{31,32}\<close>, anchored at both ends\<close>
  "matchesAddressPattern a =
     (startsWith ''GSC1'' a \<and> length (substringFrom a 4) \<in> set [31, 32]
      \<and> list_all isLowerHex (substringFrom a 4))"

subsection \<open>The data model\<close>

record GSCTransaction =
  sender :: string
  receiver :: string
  amount :: real
  fee :: real
  timestamp :: real
  signature :: string
  tx_id :: string

text \<open>The fields of a block carry the prefix \<open>blk_\<close>: two of them share a name with a
  field of a transaction or of the chain.\<close>

record GSCBlock =
  blk_index :: real
  blk_timestamp :: real
  blk_transactions :: "GSCTransaction list"
  blk_previous_hash :: string
  blk_nonce :: real
  blk_hash :: string
  blk_merkle_root :: string
  blk_difficulty :: real
  blk_miner :: string
  blk_reward :: real

record GSCWallet =
  name :: string
  address :: string
  private_key :: string
  public_key :: string
  balance :: real
  created :: string
  encrypted :: bool

text \<open>
  \<^verbatim>\<open>mempool\<close> is an optional array. After an import it is the very array that
  \<^verbatim>\<open>pending_transactions\<close> refers to, so that a push on one shows in the other:
  \<open>SamePending\<close> stands for that shared array, \<open>OwnArray\<close> for an array of its own.
\<close>

datatype mempool_ref = SamePending | OwnArray "GSCTransaction list"

record GSCBlockchain =
  chain :: "GSCBlock list"
  pending_transactions :: "GSCTransaction list"
  wallets :: "GSCWallet list"
  total_supply :: real
  mempool :: "mempool_ref option"
  balances :: "(string \<times> real) list option"
  difficulty :: "real option"
  mining_reward :: "real option"

text \<open>The object that \<^verbatim>\<open>JSON.parse\<close> yields for a snapshot: every field may be missing.\<close>

record snapshot =
  snap_chain :: "GSCBlock list option"
  snap_wallets :: "GSCWallet list option"
  snap_pending_transactions :: "GSCTransaction list option"
  snap_mempool :: "GSCTransaction list option"
  snap_balances :: "(string \<times> real) list option"
  snap_difficulty :: "real option"
  snap_mining_reward :: "real option"
  snap_total_supply :: "real option"

text \<open>
  An item of \<^verbatim>\<open>localStorage\<close>: missing (\<^verbatim>\<open>getItem\<close> returns \<^verbatim>\<open>null\<close>, or the empty string,
  which the source treats alike), text that \<^verbatim>\<open>JSON.parse\<close> rejects, or the value that
  \<^verbatim>\<open>JSON.parse\<close> returns. \<^verbatim>\<open>JSON.parse (JSON.stringify v)\<close> is \<open>v\<close> for the values here,
  up to the sharing of arrays.
\<close>

datatype 'a item = Missing | Malformed | Json 'a

record storage =
  gsc_blockchain :: "snapshot item"
  gsc_blockchain_data :: "GSCBlockchain item"

record service =
  blockchain :: "GSCBlockchain option"
  localStorage :: storage

text \<open>
  The errors, one for each \<^verbatim>\<open>throw new Error(...)\<close> of the source:
  \<^item> \<open>MinimumFee\<close>: "Minimum transaction fee is 0.1 GSC";
  \<^item> \<open>InvalidAddressFormat\<close>: "Invalid GSC address format";
  \<^item> \<open>AmountNotPositive\<close>: "Amount must be greater than 0";
  \<^item> \<open>InsufficientBalance need have\<close>: "Insufficient balance. Need ... GSC, have ... GSC";
  \<^item> \<open>ValidationFailed\<close>: "Transaction validation failed";
  \<^item> \<open>MnemonicWordCount\<close>: "Mnemonic must be exactly 12 words";
  \<^item> \<open>WalletNameRequired\<close>: "Wallet name is required";
  \<^item> \<open>PrivateKeyRequired\<close>: "Private key is required";
  \<^item> \<open>InvalidPrivateKeyFormat\<close>: "Invalid private key format. Must be 64-character
    hexadecimal string";
  \<^item> \<open>WalletNameExists\<close>: "Wallet name already exists";
  \<^item> \<open>WalletAddressExists\<close>: "Wallet with this address already exists";
  \<^item> \<open>AddressCollision\<close>: "Address collision detected, please try again";
  \<^item> \<open>EncryptionFailed\<close>: "Failed to encrypt private key";
  \<^item> \<open>NullBlockchain\<close>: the TypeError of a read of \<^verbatim>\<open>this.blockchain.wallets\<close> while
    \<^verbatim>\<open>this.blockchain\<close> is \<^verbatim>\<open>null\<close>.
\<close>

datatype error =
    MinimumFee
  | InvalidAddressFormat
  | AmountNotPositive
  | InsufficientBalance real real
  | ValidationFailed
  | MnemonicWordCount
  | WalletNameRequired
  | PrivateKeyRequired
  | InvalidPrivateKeyFormat
  | WalletNameExists
  | WalletAddressExists
  | AddressCollision
  | EncryptionFailed
  | NullBlockchain

text \<open>The calls of \<^verbatim>\<open>toast\<close>, by their title and what their description is built from.\<close>

datatype toast =
    TransactionSent real string real
  | TransactionFailed error
  | EnterNameAndMnemonic
  | WalletRestored string
  | RestoreFailed error

subsection \<open>The operator \<^verbatim>\<open>||\<close>\<close>

definition orElse :: "'a option \<Rightarrow> 'a \<Rightarrow> 'a" where
  \<comment> \<open>\<^verbatim>\<open>x || d\<close> for an array or an object \<open>x\<close>: only a missing one is falsy\<close>
  "orElse x d = (case x of None \<Rightarrow> d | Some v \<Rightarrow> v)"

definition orElseNum :: "real option \<Rightarrow> real \<Rightarrow> real" where
  \<comment> \<open>\<^verbatim>\<open>x || d\<close> for a number \<open>x\<close>: a missing one and 0 are falsy\<close>
  "orElseNum x d = (case x of None \<Rightarrow> d | Some v \<Rightarrow> if v = 0 then d else v)"

definition orElseNumOpt :: "real option \<Rightarrow> real option \<Rightarrow> real option" where
  \<comment> \<open>\<^verbatim>\<open>x || y\<close> for numbers, where \<open>y\<close> may be missing too\<close>
  "orElseNumOpt x y = (case x of None \<Rightarrow> y | Some v \<Rightarrow> if v = 0 then y else Some v)"

subsection \<open>Persistence\<close>

definition jsonCopy :: "GSCBlockchain \<Rightarrow> GSCBlockchain" where
  \<comment> \<open>what \<^verbatim>\<open>JSON.parse (JSON.stringify b)\<close> is: the shared array is written out twice\<close>
  "jsonCopy b =
     (case mempool b of
        Some SamePending \<Rightarrow> b\<lparr>mempool := Some (OwnArray (pending_transactions b))\<rparr>
      | _ \<Rightarrow> b)"

definition saveBlockchain :: "service \<Rightarrow> service" where
  "saveBlockchain s =
     (case blockchain s of
        None \<Rightarrow> s
      | Some b \<Rightarrow> s\<lparr>localStorage := (localStorage s)\<lparr>gsc_blockchain_data := Json (jsonCopy b)\<rparr>\<rparr>)"

definition genesisBlock :: "clock \<Rightarrow> GSCBlock" where
  "genesisBlock ck =
     \<lparr>blk_index = 0, blk_timestamp = real_of_int (dateNow ck), blk_transactions = [],
      blk_previous_hash = ''0'', blk_nonce = 0, blk_hash = ''genesis_hash'',
      blk_merkle_root = [], blk_difficulty = 4, blk_miner = ''GENESIS'', blk_reward = 0\<rparr>"

definition createGenesisBlock :: "clock \<Rightarrow> service \<Rightarrow> service" where
  "createGenesisBlock ck s =
     saveBlockchain
       (s\<lparr>blockchain := Some
           \<lparr>chain = [genesisBlock ck], pending_transactions = [], wallets = [],
            total_supply = 21750000000000, mempool = None, balances = Some [],
            difficulty = Some 4, mining_reward = Some 50\<rparr>\<rparr>)"

definition isObservedAddress :: "string \<Rightarrow> bool" where
  \<comment> \<open>the test of the two import loops on a key of \<^verbatim>\<open>balances\<close>\<close>
  "isObservedAddress a = (a \<noteq> ''GENESIS'' \<and> a \<noteq> ''COINBASE'' \<and> startsWith ''GSC1'' a)"

definition observerWallet :: "clock \<Rightarrow> string \<Rightarrow> real \<Rightarrow> GSCWallet" where
  \<comment> \<open>the wallet that the two import loops build for an entry of \<^verbatim>\<open>balances\<close>\<close>
  "observerWallet ck a bal =
     \<lparr>name = ''Wallet_'' @ substring a 4 14, address = a, private_key = [], public_key = [],
      balance = max 0 bal, created = dateIso ck, encrypted = False\<rparr>"

definition initializeBlockchainAfterImport :: "service \<Rightarrow> service" where
  \<comment> \<open>the \<^verbatim>\<open>Array.isArray\<close> repairs have nothing to do on typed fields\<close>
  "initializeBlockchainAfterImport s =
     (case blockchain s of
        None \<Rightarrow>
          s\<lparr>blockchain := Some
            \<lparr>chain = [], pending_transactions = [], wallets = [], total_supply = 0,
             mempool = None, balances = Some [], difficulty = Some 4,
             mining_reward = Some 50\<rparr>\<rparr>
      | Some b \<Rightarrow>
          s\<lparr>blockchain := Some
            (b\<lparr>balances := Some (orElse (balances b) []),
               difficulty := Some (orElseNum (difficulty b) 4),
               mining_reward := Some (orElseNum (mining_reward b) 50),
               total_supply := orElseNum (Some (total_supply b)) 0\<rparr>)\<rparr>)"

definition importedMempool :: "snapshot \<Rightarrow> GSCTransaction list option" where
  \<comment> \<open>\<^verbatim>\<open>importedData.mempool || importedData.pending_transactions\<close>\<close>
  "importedMempool d =
     (case snap_mempool d of Some m \<Rightarrow> Some m | None \<Rightarrow> snap_pending_transactions d)"

definition loadBlockchain :: "clock \<Rightarrow> service \<Rightarrow> service" where
  "loadBlockchain ck s =
     (case gsc_blockchain (localStorage s) of
        Json importedData \<Rightarrow>
          saveBlockchain
            (s\<lparr>blockchain := Some
                 \<lparr>chain = orElse (snap_chain importedData) [],
                  pending_transactions = orElse (importedMempool importedData) [],
                  wallets =
                    (case snap_balances importedData of
                       None \<Rightarrow> []
                     | Some entries \<Rightarrow>
                         map (\<lambda>(a, bal). observerWallet ck a bal)
                           (filter (\<lambda>(a, bal). isObservedAddress a) entries)),
                  total_supply = orElseNum (snap_total_supply importedData) 21750000000000,
                  mempool =
                    (case importedMempool importedData of
                       None \<Rightarrow> Some (OwnArray [])
                     | Some m \<Rightarrow> Some SamePending),
                  balances = Some (orElse (snap_balances importedData) []),
                  difficulty = Some (orElseNum (snap_difficulty importedData) 4),
                  mining_reward = Some (orElseNum (snap_mining_reward importedData) 50)\<rparr>,
               localStorage := (localStorage s)\<lparr>gsc_blockchain := Missing\<rparr>\<rparr>)
      | Malformed \<Rightarrow> createGenesisBlock ck s
      | Missing \<Rightarrow>
          (case gsc_blockchain_data (localStorage s) of
             Json stored \<Rightarrow> initializeBlockchainAfterImport (s\<lparr>blockchain := Some stored\<rparr>)
           | Malformed \<Rightarrow> createGenesisBlock ck s
           | Missing \<Rightarrow> createGenesisBlock ck s))"

definition newService :: "clock \<Rightarrow> storage \<Rightarrow> service" where
  \<comment> \<open>the constructor: \<^verbatim>\<open>blockchain = null\<close>, then \<^verbatim>\<open>loadBlockchain()\<close>\<close>
  "newService ck st = loadBlockchain ck \<lparr>blockchain = None, localStorage = st\<rparr>"

definition refreshWalletBalance :: "GSCBlockchain \<Rightarrow> GSCWallet \<Rightarrow> GSCWallet" where
  \<comment> \<open>the body of the first loop of refreshBlockchainData\<close>
  "refreshWalletBalance b w =
     (if address w \<noteq> [] then
        (case balances b of
           None \<Rightarrow> w
         | Some m \<Rightarrow> (case map_of m (address w) of
                        None \<Rightarrow> w
                      | Some newBalance \<Rightarrow> w\<lparr>balance := max 0 newBalance\<rparr>))
      else w)"

definition addObserverWallet ::
  "clock \<Rightarrow> string \<times> real \<Rightarrow> GSCWallet list \<Rightarrow> GSCWallet list" where
  \<comment> \<open>the body of the second loop of refreshBlockchainData\<close>
  "addObserverWallet ck entry existingWallets =
     (case entry of (a, bal) \<Rightarrow>
        if isObservedAddress a then
          (case find (\<lambda>w. address w = a) existingWallets of
             None \<Rightarrow> existingWallets @ [observerWallet ck a bal]
           | Some w \<Rightarrow> existingWallets)
        else existingWallets)"

definition refreshBlockchainData :: "clock \<Rightarrow> service \<Rightarrow> service" where
  "refreshBlockchainData ck s =
     (case gsc_blockchain (localStorage s) of
        Missing \<Rightarrow> s
      | Malformed \<Rightarrow> s
      | Json importedData \<Rightarrow>
          (case blockchain s of
             None \<Rightarrow> loadBlockchain ck s
           | Some b \<Rightarrow>
               (let b1 = b\<lparr>chain := orElse (snap_chain importedData) (chain b),
                          pending_transactions :=
                            orElse (importedMempool importedData) (pending_transactions b),
                          total_supply :=
                            orElseNum (snap_total_supply importedData) (total_supply b),
                          balances :=
                            (case snap_balances importedData of
                               Some m \<Rightarrow> Some m
                             | None \<Rightarrow> balances b),
                          difficulty := orElseNumOpt (snap_difficulty importedData) (difficulty b),
                          mining_reward :=
                            orElseNumOpt (snap_mining_reward importedData) (mining_reward b),
                          mempool :=
                            (case importedMempool importedData of
                               Some m \<Rightarrow> Some SamePending
                             | None \<Rightarrow> mempool b)\<rparr>;
                    existingWallets = map (refreshWalletBalance b1) (wallets b);
                    allWallets =
                      (case snap_balances importedData of
                         None \<Rightarrow> existingWallets
                       | Some entries \<Rightarrow> fold (addObserverWallet ck) entries existingWallets)
                in saveBlockchain
                     (s\<lparr>blockchain := Some (b1\<lparr>wallets := allWallets\<rparr>),
                        localStorage := (localStorage s)\<lparr>gsc_blockchain := Missing\<rparr>\<rparr>))))"

definition emptySnapshot :: snapshot where
  \<comment> \<open>the object \<^verbatim>\<open>{}\<close>\<close>
  "emptySnapshot =
     \<lparr>snap_chain = None, snap_wallets = None, snap_pending_transactions = None,
      snap_mempool = None, snap_balances = None, snap_difficulty = None,
      snap_mining_reward = None, snap_total_supply = None\<rparr>"

definition exportBlockchain :: "service \<Rightarrow> snapshot" where
  \<comment> \<open>the object that exportBlockchain hands to \<^verbatim>\<open>JSON.stringify\<close>\<close>
  "exportBlockchain s =
     (case blockchain s of
        None \<Rightarrow> emptySnapshot
      | Some b \<Rightarrow>
          \<lparr>snap_chain = Some (chain b), snap_wallets = Some (wallets b),
           snap_pending_transactions = Some (pending_transactions b),
           snap_mempool = None,
           snap_balances = Some (orElse (balances b) []),
           snap_difficulty = Some (orElseNum (difficulty b) 4),
           snap_mining_reward = Some (orElseNum (mining_reward b) 50),
           snap_total_supply = Some (orElseNum (Some (total_supply b)) 0)\<rparr>)"

subsection \<open>Balances\<close>

definition getWalletBalance :: "GSCBlockchain option \<Rightarrow> string \<Rightarrow> real" where
  \<comment> \<open>the first argument is \<^verbatim>\<open>this.blockchain\<close>\<close>
  "getWalletBalance bc a =
     (case bc of
        None \<Rightarrow> 0
      | Some b \<Rightarrow>
          (case (case balances b of None \<Rightarrow> None | Some m \<Rightarrow> map_of m a) of
             Some v \<Rightarrow> v
           | None \<Rightarrow>
               (case find (\<lambda>w. address w = a) (wallets b) of
                  Some w \<Rightarrow> balance w
                | None \<Rightarrow> 0)))"

fun updateFirst :: "('a \<Rightarrow> bool) \<Rightarrow> ('a \<Rightarrow> 'a) \<Rightarrow> 'a list \<Rightarrow> 'a list" where
  \<comment> \<open>\<^verbatim>\<open>const x = xs.find(p); if (x) { ... }\<close> with an assignment to a field of \<open>x\<close>\<close>
  "updateFirst p f [] = []"
| "updateFirst p f (x # xs) = (if p x then f x # xs else x # updateFirst p f xs)"

definition updateWalletBalance :: "string \<Rightarrow> real \<Rightarrow> GSCBlockchain \<Rightarrow> GSCBlockchain" where
  "updateWalletBalance a newBalance b =
     b\<lparr>balances := Some (AList.update a (max 0 newBalance) (orElse (balances b) [])),
       wallets := updateFirst (\<lambda>w. address w = a) (\<lambda>w. w\<lparr>balance := max 0 newBalance\<rparr>)
                    (wallets b)\<rparr>"

subsection \<open>Address and transaction validation\<close>

definition hexValue :: "char \<Rightarrow> int" where
  \<comment> \<open>the value of a hexadecimal digit\<close>
  "hexValue c =
     (if c \<in> set ''0123456789'' then of_char c - 48
      else if c \<in> set ''abcdef'' then of_char c - 87
      else of_char c - 55)"

definition parseInt16 :: "string \<Rightarrow> int option" where
  \<comment> \<open>\<^verbatim>\<open>parseInt(s, 16)\<close>: leading whitespace, a sign and a prefix \<^verbatim>\<open>0x\<close> are skipped, then the
     longest run of hexadecimal digits is read; \<open>None\<close> is NaN. It never throws.\<close>
  "parseInt16 s =
     (let s1 = dropWhile isWhitespace s;
          negative = (take 1 s1 = ''-'');
          s2 = (if take 1 s1 = ''-'' \<or> take 1 s1 = ''+'' then drop 1 s1 else s1);
          s3 = (if take 2 s2 = ''0x'' \<or> take 2 s2 = ''0X'' then drop 2 s2 else s2);
          ds = takeWhile isHex s3
      in if ds = [] then None
         else Some ((if negative then - 1 else 1)
                    * foldl (\<lambda>acc c. 16 * acc + hexValue c) 0 ds))"

definition validateGSCAddress :: "string \<Rightarrow> bool" where
  \<comment> \<open>the \<^verbatim>\<open>catch\<close> of the source is never entered: \<^verbatim>\<open>parseInt\<close> returns for every string,
     and the function returns \<^verbatim>\<open>true\<close> whatever \<^verbatim>\<open>parseInt\<close> returned\<close>
  "validateGSCAddress a =
     (if a = [] then False
      else if a = ''COINBASE'' \<or> a = ''GENESIS'' \<or> a = ''Genesis'' then True
      else if \<not> startsWith ''GSC1'' a then False
      else if length a < 35 \<or> length a > 36 then False
      else (let hexPart = substringFrom a 4
            in case parseInt16 hexPart of None \<Rightarrow> True | Some n \<Rightarrow> True))"

definition validateGSCTransaction :: "GSCTransaction \<Rightarrow> string \<Rightarrow> bool" where
  \<comment> \<open>the second parameter, \<^verbatim>\<open>senderAddress\<close>, is not used by the source either\<close>
  "validateGSCTransaction transaction senderAddress =
     (if amount transaction \<le> 0 then False
      else if fee transaction < 0 then False
      else if sender transaction = receiver transaction then False
      else if \<not> validateGSCAddress (sender transaction) then False
      else if \<not> validateGSCAddress (receiver transaction) then False
      else if tx_id transaction = [] \<or> length (tx_id transaction) \<noteq> 64 then False
      else True)"

subsection \<open>Building a transaction\<close>

definition generateGSCHash :: "platform \<Rightarrow> string \<Rightarrow> nat \<Rightarrow> string" where
  \<comment> \<open>the parameter \<^verbatim>\<open>length\<close> (default 64) is not used by the source: the function returns
     \<^verbatim>\<open>hashHex\<close> whole\<close>
  "generateGSCHash pf input len = bytesToHex (digestBytes (sha256 pf input))"

definition calculateGSCTransactionHash :: "platform \<Rightarrow> GSCTransaction \<Rightarrow> string" where
  "calculateGSCTransactionHash pf tx =
     generateGSCHash pf
       (sender tx @ receiver tx @ numberToString pf (amount tx) @ numberToString pf (fee tx)
        @ numberToString pf (timestamp tx)) 64"

definition signGSCTransaction :: "platform \<Rightarrow> GSCTransaction \<Rightarrow> string" where
  "signGSCTransaction pf tx =
     (if tx_id tx = [] then []
      else generateGSCHash pf (tx_id tx @ sender tx @ numberToString pf (timestamp tx)) 16)"

definition createTransaction ::
  "platform \<Rightarrow> clock \<Rightarrow> string \<Rightarrow> string \<Rightarrow> real \<Rightarrow> real option \<Rightarrow> error + GSCTransaction" where
  \<comment> \<open>the last argument is the parameter \<^verbatim>\<open>fee: number = 0.1\<close>; \<open>None\<close> is a call without it\<close>
  "createTransaction pf ck sender_addr receiver_addr amt fee_arg =
     (let fee0 = (case fee_arg of None \<Rightarrow> 0.1 | Some f \<Rightarrow> f);
          gscFee = (if fee0 = 0 then 0.1 else fee0)
      in if sender_addr \<noteq> ''COINBASE'' \<and> sender_addr \<noteq> ''GENESIS'' \<and> gscFee < 0.1
         then Inl MinimumFee
         else
           (let transaction =
                  \<lparr>sender = sender_addr, receiver = receiver_addr, amount = amt, fee = gscFee,
                   timestamp = real_of_int (dateNow ck) / 1000, signature = [], tx_id = []\<rparr>;
                transaction1 =
                  transaction\<lparr>tx_id := calculateGSCTransactionHash pf transaction\<rparr>;
                transaction2 =
                  transaction1\<lparr>signature := signGSCTransaction pf transaction1\<rparr>
            in Inr transaction2))"

subsection \<open>Sending\<close>

definition readSenderBalance :: "GSCWallet \<Rightarrow> GSCBlockchain \<Rightarrow> real \<times> GSCBlockchain" where
  \<comment> \<open>lines 607 to 616 of sendTransaction: the balance that the checks use, and the chain
     after the write of the sender's entry\<close>
  "readSenderBalance senderWallet b =
     (let bal = getWalletBalance (Some b) (address senderWallet)
      in if bal = 0 \<and> balance senderWallet > 0
         then (balance senderWallet,
               b\<lparr>balances := Some (AList.update (address senderWallet) (balance senderWallet)
                                      (orElse (balances b) []))\<rparr>)
         else (bal, b))"

definition sendTransactionTry ::
  "platform \<Rightarrow> clock \<Rightarrow> service \<Rightarrow> GSCWallet option \<Rightarrow> string \<Rightarrow> real
     \<Rightarrow> (error + bool \<times> toast option) \<times> service" where
  \<comment> \<open>the \<^verbatim>\<open>try\<close> block of sendTransaction: what it throws or returns (with the toast it
     shows), and the service as the block leaves it. The broadcast to the message relay
     catches its own failures, returns nothing and writes nothing to the service.\<close>
  "sendTransactionTry pf ck s senderWallet receiver_addr amt =
     (case (blockchain s, senderWallet) of
        (Some b, Some w) \<Rightarrow>
          (case readSenderBalance w b of (bal, b1) \<Rightarrow>
             (let fee_c = 0.1; s1 = s\<lparr>blockchain := Some b1\<rparr>
              in if \<not> startsWith ''GSC1'' receiver_addr then (Inl InvalidAddressFormat, s1)
                 else if amt \<le> 0 then (Inl AmountNotPositive, s1)
                 else if bal < numberAdd pf amt fee_c
                 then (Inl (InsufficientBalance (numberAdd pf amt fee_c) bal), s1)
                 else
                   (case createTransaction pf ck (address w) receiver_addr amt (Some fee_c) of
                      Inl e \<Rightarrow> (Inl e, s1)
                    | Inr transaction \<Rightarrow>
                        if \<not> validateGSCTransaction transaction (address w)
                        then (Inl ValidationFailed, s1)
                        else
                          (let b2 = b1\<lparr>pending_transactions :=
                                         pending_transactions b1 @ [transaction]\<rparr>;
                               b3 = updateWalletBalance (address w)
                                      (numberSub pf (numberSub pf bal amt) fee_c) b2;
                               receiverBalance = getWalletBalance (Some b3) receiver_addr;
                               b4 = updateWalletBalance receiver_addr
                                      (numberAdd pf receiverBalance amt) b3;
                               s2 = saveBlockchain (s1\<lparr>blockchain := Some b4\<rparr>)
                           in (Inr (True, Some (TransactionSent amt
                                                  (substring receiver_addr 0 20) fee_c)),
                               s2)))))
      | _ \<Rightarrow> (Inr (False, None), s))"

definition sendTransaction ::
  "platform \<Rightarrow> clock \<Rightarrow> service \<Rightarrow> GSCWallet option \<Rightarrow> string \<Rightarrow> real
     \<Rightarrow> (error + bool) \<times> toast option \<times> service" where
  \<comment> \<open>the result is what the caller sees: \<open>Inl\<close> an exception that leaves the function,
     \<open>Inr\<close> the value it returns. \<open>None\<close> for the wallet is a \<^verbatim>\<open>null\<close> argument.\<close>
  "sendTransaction pf ck s senderWallet receiver_addr amt =
     (case sendTransactionTry pf ck s senderWallet receiver_addr amt of
        (Inr (r, t), s') \<Rightarrow> (Inr r, t, s')
      | (Inl e, s') \<Rightarrow> (Inr False, Some (TransactionFailed e), s'))"

subsection \<open>Mnemonic derivation and wallet import\<close>

record keyMaterial =
  km_address :: string
  km_privateKey :: string
  km_publicKey :: string

definition generateAddressFromMnemonic :: "platform \<Rightarrow> string list \<Rightarrow> error + keyMaterial" where
  \<comment> \<open>the source has no \<^verbatim>\<open>throw\<close> and no test on the number of words\<close>
  "generateAddressFromMnemonic pf mnemonic =
     (let seed = joinWith '' '' mnemonic;
          privateKey = bytesToHex (digestBytes (sha256 pf seed));
          publicKey = generatePublicKeyFromPrivate pf privateKey
      in Inr \<lparr>km_address = addressOfKey privateKey, km_privateKey = privateKey,
               km_publicKey = publicKey\<rparr>)"

definition createWallet ::
  "platform \<Rightarrow> clock \<Rightarrow> service \<Rightarrow> 8 word list \<Rightarrow> (string \<Rightarrow> string \<Rightarrow> error + string)
     \<Rightarrow> string \<Rightarrow> string option \<Rightarrow> (error + GSCWallet) \<times> service" where
  \<comment> \<open>\<open>array\<close> is the random \<^verbatim>\<open>Uint8Array(32)\<close> of generateSecurePrivateKey; \<open>encrypt\<close> is
     encryptPrivateKey as it behaves in this call (it is made of calls of the Web Crypto
     API, with a random salt and IV); \<open>None\<close> is a call without a passphrase, and the empty
     passphrase is falsy too\<close>
  "createWallet pf ck s0 array encrypt nm passphrase =
     (let s = (if blockchain s0 = None then createGenesisBlock ck s0 else s0)
      in if nm = [] \<or> trim nm = [] then (Inl WalletNameRequired, s)
         else
           (case blockchain s of
              None \<Rightarrow> (Inl NullBlockchain, s)
            | Some b \<Rightarrow>
                if find (\<lambda>w. name w = trim nm) (wallets b) \<noteq> None
                then (Inl WalletNameExists, s)
                else
                  (let privateKey = generateSecurePrivateKey array;
                       publicKey = generatePublicKeyFromPrivate pf privateKey;
                       addr = addressOfKey privateKey
                   in if find (\<lambda>w. address w = addr) (wallets b) \<noteq> None
                      then (Inl AddressCollision, s)
                      else
                        (case (case passphrase of
                                 None \<Rightarrow> Inr privateKey
                               | Some p \<Rightarrow> if p = [] then Inr privateKey
                                          else encrypt privateKey p) of
                           Inl e \<Rightarrow> (Inl e, s)
                         | Inr storedKey \<Rightarrow>
                             (let wallet =
                                    \<lparr>name = trim nm, address = addr, private_key = storedKey,
                                     public_key = publicKey, balance = 0,
                                     created = dateIso ck,
                                     encrypted = (passphrase \<noteq> None \<and> passphrase \<noteq> Some [])\<rparr>
                              in (Inr wallet,
                                  saveBlockchain
                                    (s\<lparr>blockchain :=
                                         Some (b\<lparr>wallets := wallets b @ [wallet]\<rparr>)\<rparr>)))))))"

definition importWallet ::
  "platform \<Rightarrow> clock \<Rightarrow> service \<Rightarrow> string \<Rightarrow> string \<Rightarrow> (error + GSCWallet) \<times> service" where
  "importWallet pf ck s0 nm privateKey =
     (let s = (if blockchain s0 = None then createGenesisBlock ck s0 else s0)
      in if nm = [] \<or> trim nm = [] then (Inl WalletNameRequired, s)
         else if privateKey = [] \<or> trim privateKey = [] then (Inl PrivateKeyRequired, s)
         else
           (let cleanPrivateKey = trim privateKey
            in if \<not> (length cleanPrivateKey = 64 \<and> list_all isHex cleanPrivateKey)
               then (Inl InvalidPrivateKeyFormat, s)
               else
                 (case blockchain s of
                    None \<Rightarrow> (Inl NullBlockchain, s)
                  | Some b \<Rightarrow>
                      if find (\<lambda>w. name w = trim nm) (wallets b) \<noteq> None
                      then (Inl WalletNameExists, s)
                      else
                        (let addr = addressOfKey cleanPrivateKey
                         in if find (\<lambda>w. address w = addr) (wallets b) \<noteq> None
                            then (Inl WalletAddressExists, s)
                            else
                              (let wallet =
                                     \<lparr>name = trim nm, address = addr,
                                      private_key = cleanPrivateKey,
                                      public_key =
                                        generatePublicKeyFromPrivate pf cleanPrivateKey,
                                      balance = getWalletBalance (Some b) addr,
                                      created = dateIso ck, encrypted = False\<rparr>
                               in (Inr wallet,
                                   saveBlockchain
                                     (s\<lparr>blockchain :=
                                          Some (b\<lparr>wallets := wallets b @ [wallet]\<rparr>)\<rparr>)))))))"

definition handleImportFromMnemonic ::
  "platform \<Rightarrow> clock \<Rightarrow> service \<Rightarrow> string \<Rightarrow> string \<Rightarrow> toast \<times> service" where
  \<comment> \<open>the handler of GSCWalletManager.tsx, with the form fields \<^verbatim>\<open>importWalletName\<close> and
     \<^verbatim>\<open>mnemonicImport\<close> as arguments; the result is the toast it shows and the service\<close>
  "handleImportFromMnemonic pf ck s importWalletName mnemonicImport =
     (if trim importWalletName = [] \<or> trim mnemonicImport = [] then (EnterNameAndMnemonic, s)
      else
        (let mnemonicWords = splitWhitespace False [] (trim mnemonicImport)
         in if length mnemonicWords \<noteq> 12 then (RestoreFailed MnemonicWordCount, s)
            else
              (case generateAddressFromMnemonic pf mnemonicWords of
                 Inl e \<Rightarrow> (RestoreFailed e, s)
               | Inr km \<Rightarrow>
                   (case importWallet pf ck s (trim importWalletName) (km_privateKey km) of
                      (Inl e, s') \<Rightarrow> (RestoreFailed e, s')
                    | (Inr wallet, s') \<Rightarrow> (WalletRestored (name wallet), s')))))"

subsection \<open>The invariant of the ledger\<close>

definition nonNegativeBalances :: "GSCBlockchain option \<Rightarrow> bool" where
  \<comment> \<open>every entry of \<^verbatim>\<open>balances\<close> is at least 0; the argument is \<^verbatim>\<open>this.blockchain\<close>\<close>
  "nonNegativeBalances bc =
     (case bc of
        None \<Rightarrow> True
      | Some b \<Rightarrow> list_all (\<lambda>(a, v). 0 \<le> v) (orElse (balances b) []))"

subsection \<open>Concrete values for the examples\<close>

definition zeroPlatform :: platform where
  \<comment> \<open>a platform for the examples: no example depends on the bits of a digest or on the
     digits of a number, and the sums and differences of the examples (of 10, 11, 0.1,
     10.1 and 0) are those of the doubles in every comparison and in every stored balance\<close>
  "zeroPlatform =
     \<lparr>sha256 = (\<lambda>input. 0), numberToString = (\<lambda>x. ''0''),
      numberAdd = (\<lambda>x y. x + y), numberSub = (\<lambda>x y. x - y)\<rparr>"

definition exampleClock :: clock where
  "exampleClock = \<lparr>dateNow = 1700000000000, dateIso = ''2023-11-14T22:13:20.000Z''\<rparr>"

definition emptyStorage :: storage where
  "emptyStorage = \<lparr>gsc_blockchain = Missing, gsc_blockchain_data = Missing\<rparr>"

definition addrA :: string where
  "addrA = ''GSC1aaaaaaaaaaaaaaaaaaaaaaaaaaaaaaaa''"

definition addrB :: string where
  "addrB = ''GSC1bbbbbbbbbbbbbbbbbbbbbbbbbbbbbbbb''"

definition importedEngine :: "string \<Rightarrow> real \<Rightarrow> service" where
  \<comment> \<open>a new engine that finds the snapshot \<^verbatim>\<open>{"balances": {a: v}}\<close> to import\<close>
  "importedEngine a v =
     newService exampleClock
       (emptyStorage\<lparr>gsc_blockchain :=
          Json (emptySnapshot\<lparr>snap_balances := Some [(a, v)]\<rparr>)\<rparr>)"

definition ledgerA :: GSCBlockchain where
  \<comment> \<open>a chain of one block in which \<open>addrA\<close> holds 5\<close>
  "ledgerA =
     \<lparr>chain = [genesisBlock exampleClock], pending_transactions = [], wallets = [],
      total_supply = 21750000000000, mempool = None, balances = Some [(addrA, 5)],
      difficulty = Some 4, mining_reward = Some 50\<rparr>"

definition walletOf :: "string \<Rightarrow> real \<Rightarrow> GSCWallet" where
  \<comment> \<open>a wallet object with the given address and cached balance\<close>
  "walletOf a bal =
     \<lparr>name = ''w'', address = a, private_key = [], public_key = [], balance = bal,
      created = [], encrypted = False\<rparr>"

section \<open>Properties\<close>

subsection \<open>Hexadecimal rendering\<close>

declare toString16.simps [simp del]

lemma hexDigit_lower: "d < 16 \<Longrightarrow> isLowerHex (hexDigit d)"
  unfolding isLowerHex_def hexDigit_def by (rule nth_mem) (simp add: hexDigits_def)

lemma toString16_lower: "list_all isLowerHex (toString16 n)"
proof (induction n rule: toString16.induct)
  case (1 n)
  show ?case
  proof (cases "n < 16")
    case True
    then show ?thesis by (subst toString16.simps) (simp add: hexDigit_lower)
  next
    case False
    with 1 show ?thesis by (subst toString16.simps) (simp add: hexDigit_lower)
  qed
qed

lemma toString16_length: "n < 256 \<Longrightarrow> length (toString16 n) = (if n < 16 then 1 else 2)"
proof -
  assume n: "n < 256"
  show ?thesis
  proof (cases "n < 16")
    case True
    then show ?thesis by (subst toString16.simps) simp
  next
    case False
    from n have "n div 16 < 16" by simp
    then have "length (toString16 (n div 16)) = 1" by (subst toString16.simps) simp
    with False show ?thesis by (subst toString16.simps) simp
  qed
qed

lemma byteToHex_length: "length (byteToHex b) = 2"
proof -
  have "unat b < 256" using unsigned_less [of b] by simp
  then show ?thesis by (simp add: byteToHex_def padStart_def toString16_length)
qed

lemma byteToHex_lower: "list_all isLowerHex (byteToHex b)"
proof -
  have zero: "isLowerHex (CHR ''0'')"
    by (simp add: isLowerHex_def hexDigits_def)
  have "\<forall>c \<in> set (toString16 (unat b)). isLowerHex c"
    using toString16_lower [of "unat b"] by (simp add: list_all_iff)
  with zero show ?thesis
    by (auto simp: byteToHex_def padStart_def list_all_iff)
qed

lemma bytesToHex_length: "length (bytesToHex bs) = 2 * length bs"
  by (induction bs) (simp_all add: bytesToHex_def byteToHex_length)

lemma bytesToHex_lower: "list_all isLowerHex (bytesToHex bs)"
  by (induction bs) (simp_all add: bytesToHex_def byteToHex_lower)

lemma digestBytes_length: "length (digestBytes h) = 32"
  by (simp add: digestBytes_def)

lemma generateGSCHash_length: "length (generateGSCHash pf input len) = 64"
  by (simp add: generateGSCHash_def bytesToHex_length digestBytes_length)

lemma validateGSCAddress_iff:
  "validateGSCAddress a \<longleftrightarrow>
     a \<noteq> [] \<and> (a = ''COINBASE'' \<or> a = ''GENESIS'' \<or> a = ''Genesis''
        \<or> (startsWith ''GSC1'' a \<and> 35 \<le> length a \<and> length a \<le> 36))"
  by (auto simp: validateGSCAddress_def split: option.splits)

subsection \<open>Building a transaction\<close>

lemma bytesToHex_digest_zero: "bytesToHex (digestBytes 0) = concat (replicate 32 ''00'')"
proof -
  have "byteToHex 0 = ''00''"
    by (simp add: byteToHex_def padStart_def toString16.simps hexDigit_def hexDigits_def)
  then show ?thesis
    by (simp add: bytesToHex_def digestBytes_def map_replicate_const)
qed

lemma zero_digest_hex:
  "generateGSCHash zeroPlatform input len
     = ''0000000000000000000000000000000000000000000000000000000000000000''"
  by (simp add: generateGSCHash_def zeroPlatform_def bytesToHex_digest_zero eval_nat_numeral)

lemma zeroPlatform_arith:
  "numberAdd zeroPlatform x y = x + y" "numberSub zeroPlatform x y = x - y"
  by (simp_all add: zeroPlatform_def)

lemma generateGSCHash_nonempty: "generateGSCHash pf i l \<noteq> []"
  using generateGSCHash_length [of pf i l] by auto

lemma createTransaction_eq:
  "createTransaction pf ck sa ra amt f =
     (let gscFee = (if f = None \<or> f = Some 0 then 0.1 else the f);
          ts = real_of_int (dateNow ck) / 1000;
          txid = generateGSCHash pf
                   (sa @ ra @ numberToString pf amt @ numberToString pf gscFee
                    @ numberToString pf ts) 64
      in if sa \<noteq> ''COINBASE'' \<and> sa \<noteq> ''GENESIS'' \<and> gscFee < 0.1 then Inl MinimumFee
         else Inr \<lparr>sender = sa, receiver = ra, amount = amt, fee = gscFee, timestamp = ts,
                   signature = generateGSCHash pf (txid @ sa @ numberToString pf ts) 16,
                   tx_id = txid\<rparr>)"
  by (cases f)
     (simp_all add: createTransaction_def Let_def calculateGSCTransactionHash_def
        signGSCTransaction_def generateGSCHash_nonempty)

lemma createTransaction_Inr:
  assumes "createTransaction pf ck sa ra amt f = Inr tx"
  shows "tx = \<lparr>sender = sa, receiver = ra, amount = amt,
               fee = (if f = None \<or> f = Some 0 then 0.1 else the f),
               timestamp = real_of_int (dateNow ck) / 1000,
               signature = generateGSCHash pf
                 (tx_id tx @ sa @ numberToString pf (real_of_int (dateNow ck) / 1000)) 16,
               tx_id = generateGSCHash pf
                 (sa @ ra @ numberToString pf amt
                  @ numberToString pf (if f = None \<or> f = Some 0 then 0.1 else the f)
                  @ numberToString pf (real_of_int (dateNow ck) / 1000)) 64\<rparr>"
  using assms unfolding createTransaction_eq Let_def
  by (simp split: if_splits) auto

lemma createTransaction_zeroPlatform:
  "createTransaction zeroPlatform exampleClock addrA addrB 10 (Some f) =
     (if (if f = 0 then 0.1 else f) < 0.1 then Inl MinimumFee
      else Inr \<lparr>sender = addrA, receiver = addrB, amount = 10,
                fee = (if f = 0 then 0.1 else f), timestamp = 1700000000,
                signature = ''0000000000000000000000000000000000000000000000000000000000000000'',
                tx_id = ''0000000000000000000000000000000000000000000000000000000000000000''\<rparr>)"
  by (simp add: createTransaction_eq zero_digest_hex exampleClock_def addrA_def)

subsection \<open>Import of a snapshot\<close>

lemma loadBlockchain_import:
  "gsc_blockchain st = Json d \<Longrightarrow>
   blockchain (loadBlockchain ck \<lparr>blockchain = bc, localStorage = st\<rparr>) =
     Some \<lparr>chain = orElse (snap_chain d) [],
           pending_transactions = orElse (importedMempool d) [],
           wallets = (case snap_balances d of
                        None \<Rightarrow> []
                      | Some entries \<Rightarrow>
                          map (\<lambda>(a, bal). observerWallet ck a bal)
                            (filter (\<lambda>(a, bal). isObservedAddress a) entries)),
           total_supply = orElseNum (snap_total_supply d) 21750000000000,
           mempool = (case importedMempool d of
                        None \<Rightarrow> Some (OwnArray [])
                      | Some m \<Rightarrow> Some SamePending),
           balances = Some (orElse (snap_balances d) []),
           difficulty = Some (orElseNum (snap_difficulty d) 4),
           mining_reward = Some (orElseNum (snap_mining_reward d) 50)\<rparr>"
  by (simp add: loadBlockchain_def saveBlockchain_def)

lemma refreshBlockchainData_import:
  "gsc_blockchain st = Json d \<Longrightarrow>
   \<exists>b'. blockchain (refreshBlockchainData ck \<lparr>blockchain = Some b0, localStorage = st\<rparr>)
           = Some b'
        \<and> chain b' = orElse (snap_chain d) (chain b0)
        \<and> balances b' = (case snap_balances d of Some m \<Rightarrow> Some m | None \<Rightarrow> balances b0)"
  by (simp add: refreshBlockchainData_def saveBlockchain_def Let_def)

subsection \<open>Sending\<close>

lemma createTransaction_default_fee:
  "\<exists>tx. createTransaction pf ck sa ra amt (Some 0.1) = Inr tx
        \<and> sender tx = sa \<and> receiver tx = ra \<and> amount tx = amt \<and> fee tx = 0.1
        \<and> length (tx_id tx) = 64"
  by (simp add: createTransaction_eq Let_def generateGSCHash_length)

lemma validateGSCTransaction_iff:
  "validateGSCTransaction tx x \<longleftrightarrow>
     0 < amount tx \<and> 0 \<le> fee tx \<and> sender tx \<noteq> receiver tx
     \<and> validateGSCAddress (sender tx) \<and> validateGSCAddress (receiver tx)
     \<and> length (tx_id tx) = 64"
  by (auto simp: validateGSCTransaction_def)

lemma sendTransaction_eq:
  assumes bc: "blockchain s = Some b"
    and rd: "readSenderBalance w b = (bal, b1)"
    and tx: "createTransaction pf ck (address w) r amt (Some 0.1) = Inr tx"
  shows "sendTransaction pf ck s (Some w) r amt =
     (if \<not> startsWith ''GSC1'' r
      then (Inr False, Some (TransactionFailed InvalidAddressFormat), s\<lparr>blockchain := Some b1\<rparr>)
      else if amt \<le> 0
      then (Inr False, Some (TransactionFailed AmountNotPositive), s\<lparr>blockchain := Some b1\<rparr>)
      else if bal < numberAdd pf amt 0.1
      then (Inr False,
            Some (TransactionFailed (InsufficientBalance (numberAdd pf amt 0.1) bal)),
            s\<lparr>blockchain := Some b1\<rparr>)
      else if \<not> validateGSCTransaction tx (address w)
      then (Inr False, Some (TransactionFailed ValidationFailed), s\<lparr>blockchain := Some b1\<rparr>)
      else (Inr True, Some (TransactionSent amt (substring r 0 20) 0.1),
            saveBlockchain
              (s\<lparr>blockchain := Some
                 (updateWalletBalance r
                    (numberAdd pf
                       (getWalletBalance
                          (Some (updateWalletBalance (address w)
                                   (numberSub pf (numberSub pf bal amt) 0.1)
                                   (b1\<lparr>pending_transactions :=
                                         pending_transactions b1 @ [tx]\<rparr>))) r)
                       amt)
                    (updateWalletBalance (address w)
                       (numberSub pf (numberSub pf bal amt) 0.1)
                       (b1\<lparr>pending_transactions := pending_transactions b1 @ [tx]\<rparr>)))\<rparr>)))"
  by (simp add: sendTransaction_def sendTransactionTry_def bc rd tx Let_def)

lemma sendTransaction_no_engine:
  "blockchain s = None \<or> wo = None \<Longrightarrow>
   sendTransaction pf ck s wo r amt = (Inr False, None, s)"
  by (auto simp: sendTransaction_def sendTransactionTry_def split: option.splits)

lemma readSenderBalance_eq:
  "readSenderBalance w b =
     (if getWalletBalance (Some b) (address w) = 0 \<and> 0 < balance w
      then (balance w,
            b\<lparr>balances := Some (AList.update (address w) (balance w) (orElse (balances b) []))\<rparr>)
      else (getWalletBalance (Some b) (address w), b))"
  by (simp add: readSenderBalance_def Let_def)

lemma readSenderBalance_read:
  "getWalletBalance (Some (snd (readSenderBalance w b))) (address w) = fst (readSenderBalance w b)"
proof (cases "getWalletBalance (Some b) (address w) = 0 \<and> 0 < balance w")
  case True
  then show ?thesis by (simp add: readSenderBalance_eq) (simp add: getWalletBalance_def update_conv')
next
  case False
  then show ?thesis by (auto simp: readSenderBalance_eq)
qed

lemma lookup_updateWalletBalance:
  "(case balances (updateWalletBalance a x b) of None \<Rightarrow> None | Some m \<Rightarrow> map_of m a') =
     (if a' = a then Some (max 0 x)
      else (case balances b of None \<Rightarrow> None | Some m \<Rightarrow> map_of m a'))"
  by (simp add: updateWalletBalance_def orElse_def update_conv' split: option.splits)

lemma getWalletBalance_updated:
  "getWalletBalance (Some (updateWalletBalance a x b)) a = max 0 x"
  by (simp add: getWalletBalance_def lookup_updateWalletBalance)

lemma getWalletBalance_updated_other:
  "a' \<noteq> a \<Longrightarrow>
   getWalletBalance (Some (updateWalletBalance a x (updateWalletBalance a' y b))) a' = max 0 y"
  by (simp add: getWalletBalance_def lookup_updateWalletBalance)

lemma blockchain_saveBlockchain: "blockchain (saveBlockchain s) = blockchain s"
  by (simp add: saveBlockchain_def split: option.splits)

lemma sendTransaction_insufficient:
  assumes "blockchain s = Some b" and "readSenderBalance w b = (bal, b1)"
    and "startsWith ''GSC1'' r" and "0 < amt" and "bal < numberAdd pf amt 0.1"
  shows "sendTransaction pf ck s (Some w) r amt =
           (Inr False,
            Some (TransactionFailed (InsufficientBalance (numberAdd pf amt 0.1) bal)),
            s\<lparr>blockchain := Some b1\<rparr>)"
proof -
  obtain tx where tx: "createTransaction pf ck (address w) r amt (Some 0.1) = Inr tx"
    using createTransaction_default_fee by blast
  show ?thesis
    unfolding sendTransaction_eq [OF assms(1,2) tx] using assms(3-5) by simp
qed

lemma sendTransaction_validation_failure:
  assumes "blockchain s = Some b" and "readSenderBalance w b = (bal, b1)"
    and "startsWith ''GSC1'' r" and "0 < amt" and "numberAdd pf amt 0.1 \<le> bal"
    and "address w = r \<or> \<not> validateGSCAddress (address w) \<or> \<not> validateGSCAddress r"
  shows "sendTransaction pf ck s (Some w) r amt =
           (Inr False, Some (TransactionFailed ValidationFailed), s\<lparr>blockchain := Some b1\<rparr>)"
proof -
  obtain tx where tx: "createTransaction pf ck (address w) r amt (Some 0.1) = Inr tx"
    and f: "sender tx = address w" "receiver tx = r"
    using createTransaction_default_fee by blast
  from assms(6) have "\<not> validateGSCTransaction tx (address w)"
    by (auto simp: validateGSCTransaction_iff f)
  then show ?thesis
    unfolding sendTransaction_eq [OF assms(1,2) tx] using assms(3-5) by simp
qed

lemma sendTransaction_success:
  assumes "blockchain s = Some b" and "readSenderBalance w b = (bal, b1)"
    and "startsWith ''GSC1'' r" and "0 < amt" and "numberAdd pf amt 0.1 \<le> bal"
    and "address w \<noteq> r" and "validateGSCAddress (address w)" and "validateGSCAddress r"
  shows "\<exists>t s'. sendTransaction pf ck s (Some w) r amt = (Inr True, t, s')
           \<and> getWalletBalance (blockchain s') (address w)
               = max 0 (numberSub pf (numberSub pf bal amt) 0.1)"
proof -
  obtain tx where tx: "createTransaction pf ck (address w) r amt (Some 0.1) = Inr tx"
    and f: "sender tx = address w" "receiver tx = r" "amount tx = amt" "fee tx = 0.1"
           "length (tx_id tx) = 64"
    using createTransaction_default_fee by blast
  have "validateGSCTransaction tx (address w)"
    using assms(4,6-8) by (simp add: validateGSCTransaction_iff f)
  then show ?thesis
    unfolding sendTransaction_eq [OF assms(1,2) tx] using assms(3-6)
    by (simp add: blockchain_saveBlockchain getWalletBalance_updated_other)
qed

text \<open>Between valid and different addresses, the computed sum alone decides a send: it
  succeeds exactly when the balance read is not less than the sum as the platform rounds
  it.\<close>

lemma send_decided_by_computed_sum:
  assumes "blockchain s = Some b" and "readSenderBalance w b = (bal, b1)"
    and "startsWith ''GSC1'' r" and "0 < amt"
    and "address w \<noteq> r" and "validateGSCAddress (address w)" and "validateGSCAddress r"
  shows "fst (sendTransaction pf ck s (Some w) r amt) = Inr True
           \<longleftrightarrow> numberAdd pf amt 0.1 \<le> bal"
proof (cases "numberAdd pf amt 0.1 \<le> bal")
  case True
  from sendTransaction_success [OF assms(1-4) True assms(5-7), of ck] True
  show ?thesis by auto
next
  case False
  then have "bal < numberAdd pf amt 0.1" by simp
  from sendTransaction_insufficient [OF assms(1-4) this, of ck] False
  show ?thesis by simp
qed

text \<open>A send keeps every entry of \<^verbatim>\<open>balances\<close> at least 0: the entry it writes while it
  reads the balance is positive, and updateWalletBalance clamps what it writes.\<close>

lemma orElse_Some: "orElse (Some v) d = v"
  by (simp add: orElse_def)

lemma list_all_update:
  "list_all (\<lambda>(a, v). (0 :: real) \<le> v) m \<Longrightarrow> 0 \<le> x
   \<Longrightarrow> list_all (\<lambda>(a, v). 0 \<le> v) (AList.update k x m)"
  by (induction m) auto

lemma nonNegativeBalances_updateWalletBalance:
  "nonNegativeBalances (Some b) \<Longrightarrow> nonNegativeBalances (Some (updateWalletBalance a x b))"
  by (simp add: nonNegativeBalances_def updateWalletBalance_def list_all_update orElse_Some)

lemma nonNegativeBalances_readSenderBalance:
  "nonNegativeBalances (Some b) \<Longrightarrow> nonNegativeBalances (Some (snd (readSenderBalance w b)))"
  by (simp add: nonNegativeBalances_def readSenderBalance_eq list_all_update orElse_Some)

lemma sendTransaction_keeps_balances_nonnegative:
  assumes "nonNegativeBalances (blockchain s)"
  shows "nonNegativeBalances (blockchain (snd (snd (sendTransaction pf ck s wo r amt))))"
proof (cases "blockchain s = None \<or> wo = None")
  case True
  from sendTransaction_no_engine [OF True, of pf ck r amt] assms show ?thesis by simp
next
  case False
  then obtain b w where bc: "blockchain s = Some b" and wo: "wo = Some w" by auto
  obtain bal b1 where rd: "readSenderBalance w b = (bal, b1)" by (cases "readSenderBalance w b")
  obtain tx where tx: "createTransaction pf ck (address w) r amt (Some 0.1) = Inr tx"
    using createTransaction_default_fee by blast
  from assms have "nonNegativeBalances (Some b1)"
    using nonNegativeBalances_readSenderBalance [of b w] by (simp add: bc rd)
  then have "nonNegativeBalances (Some (b1\<lparr>pending_transactions := pending_transactions b1 @ [tx]\<rparr>))"
    by (simp add: nonNegativeBalances_def)
  with \<open>nonNegativeBalances (Some b1)\<close> show ?thesis
    unfolding wo sendTransaction_eq [OF bc rd tx]
    by (simp add: blockchain_saveBlockchain nonNegativeBalances_updateWalletBalance)
qed

subsection \<open>The engines of the examples\<close>

lemma importedEngine_blockchain:
  "startsWith ''GSC1'' a \<Longrightarrow>
   blockchain (importedEngine a v) =
     Some \<lparr>chain = [], pending_transactions = [], wallets = [observerWallet exampleClock a v],
           total_supply = 21750000000000, mempool = Some (OwnArray []),
           balances = Some [(a, v)], difficulty = Some 4, mining_reward = Some 50\<rparr>"
  by (auto simp: importedEngine_def newService_def loadBlockchain_import emptyStorage_def
        emptySnapshot_def orElse_def orElseNum_def importedMempool_def isObservedAddress_def
        startsWith_def)

lemma genesisEngine_blockchain:
  "blockchain (newService exampleClock emptyStorage) =
     Some \<lparr>chain = [genesisBlock exampleClock], pending_transactions = [], wallets = [],
           total_supply = 21750000000000, mempool = None, balances = Some [],
           difficulty = Some 4, mining_reward = Some 50\<rparr>"
  by (simp add: newService_def loadBlockchain_def emptyStorage_def createGenesisBlock_def
        saveBlockchain_def)

lemma example_addresses:
  "startsWith ''GSC1'' addrA" "startsWith ''GSC1'' addrB" "startsWith ''GSC1'' ''GSC1abc''"
  "validateGSCAddress addrA" "validateGSCAddress addrB" "\<not> validateGSCAddress ''GSC1abc''"
  "addrA \<noteq> addrB" "addrB \<noteq> addrA" "addrB \<noteq> ''GSC1abc''" "addrA \<noteq> ''GSC1abc''"
  by (simp_all add: validateGSCAddress_iff addrA_def addrB_def startsWith_def)

subsection \<open>Key and address derivation\<close>

lemma createWallet_address:
  assumes "createWallet pf ck s array encrypt nm passphrase = (Inr w, s')"
  shows "address w = addressOfKey (generateSecurePrivateKey array)"
  using assms
  by (auto simp: createWallet_def Let_def split: if_splits option.splits sum.splits)

lemma importWallet_address:
  assumes "importWallet pf ck s nm privateKey = (Inr w, s')"
  shows "address w = addressOfKey (trim privateKey)"
  using assms
  by (auto simp: importWallet_def Let_def split: if_splits option.splits)

text \<open>
  Claim C9. A private key generated from the 32 random bytes is a string of 64 lowercase
  hexadecimal characters; the address derived from it is \<^verbatim>\<open>GSC1\<close> followed by the first 32
  characters of the key, has length 36 and matches \<^verbatim>\<open>GSC1[0-9a-f]{31,32}\<close>. The address
  is a function of the key alone, so that deriving it again from the same key gives the
  same address.
\<close>

theorem derive_address_generated_key:
  assumes "length array = 32"
  shows "length (generateSecurePrivateKey array) = 64
       \<and> list_all isLowerHex (generateSecurePrivateKey array)
       \<and> addressOfKey (generateSecurePrivateKey array)
           = ''GSC1'' @ take 32 (generateSecurePrivateKey array)
       \<and> length (addressOfKey (generateSecurePrivateKey array)) = 36
       \<and> matchesAddressPattern (addressOfKey (generateSecurePrivateKey array))
       \<and> (\<forall>key. key = generateSecurePrivateKey array
            \<longrightarrow> addressOfKey key = addressOfKey (generateSecurePrivateKey array))"
proof -
  let ?k = "generateSecurePrivateKey array"
  have len: "length ?k = 64"
    using assms by (simp add: generateSecurePrivateKey_def bytesToHex_length)
  have low: "list_all isLowerHex ?k"
    by (simp add: generateSecurePrivateKey_def bytesToHex_lower)
  have addr: "addressOfKey ?k = ''GSC1'' @ take 32 ?k"
    by (simp add: addressOfKey_def substring_def)
  have alen: "length (addressOfKey ?k) = 36"
    using len by (simp add: addr)
  have "list_all isLowerHex (take 32 ?k)"
    using low by (auto simp: list_all_iff dest: in_set_takeD)
  then have pat: "matchesAddressPattern (addressOfKey ?k)"
    using len by (simp add: addr matchesAddressPattern_def startsWith_def substringFrom_def)
  from len low addr alen pat show ?thesis by simp
qed

theorem derive_address_generated_key_witness:
  "length (replicate 32 (171 :: 8 word)) = 32
   \<and> addressOfKey (generateSecurePrivateKey (replicate 32 171)) = ''GSC1abababababababababababababababab''
   \<and> matchesAddressPattern (addressOfKey (generateSecurePrivateKey (replicate 32 171)))"
proof -
  have h: "length (replicate 32 (171 :: 8 word)) = 32" by simp
  have b: "byteToHex 171 = ''ab''"
    by (simp add: byteToHex_def padStart_def toString16.simps hexDigit_def hexDigits_def)
  have k: "generateSecurePrivateKey (replicate 32 171) = concat (replicate 32 ''ab'')"
    by (simp add: generateSecurePrivateKey_def bytesToHex_def b map_replicate_const)
  have "addressOfKey (generateSecurePrivateKey (replicate 32 171)) = ''GSC1abababababababababababababababab''"
    unfolding k by (simp add: addressOfKey_def substring_def eval_nat_numeral)
  moreover have "matchesAddressPattern (addressOfKey (generateSecurePrivateKey (replicate 32 171)))"
    using derive_address_generated_key [OF h] by blast
  ultimately show ?thesis using h by blast
qed

subsection \<open>The signature of a transaction\<close>

text \<open>
  Claim C1 says that the signature of a built transaction is the first 16 hexadecimal
  characters of the SHA-256 digest of \<open>tx_id @ sender @ timestamp\<close>, a string of length 16.
  signGSCTransaction asks generateGSCHash for 16 characters, but generateGSCHash does not
  read its parameter \<^verbatim>\<open>length\<close>: the signature of every built transaction is the whole
  digest, 64 characters, and differs from its first 16 characters.
\<close>

theorem signature_is_whole_digest:
  assumes "createTransaction pf ck sa ra amt f = Inr tx"
  shows "signature tx
           = bytesToHex (digestBytes
               (sha256 pf (tx_id tx @ sender tx @ numberToString pf (timestamp tx))))
       \<and> length (signature tx) = 64
       \<and> signature tx \<noteq> take 16 (signature tx)"
proof -
  have sig: "signature tx
           = generateGSCHash pf (tx_id tx @ sender tx @ numberToString pf (timestamp tx)) 16"
    by (subst createTransaction_Inr [OF assms], subst (3 4) createTransaction_Inr [OF assms]) simp
  then have len: "length (signature tx) = 64"
    by (simp add: generateGSCHash_length)
  have short: "signature tx \<noteq> take 16 (signature tx)"
  proof
    assume "signature tx = take 16 (signature tx)"
    from arg_cong [OF this, of length] len show False by simp
  qed
  from sig len short show ?thesis by (simp add: generateGSCHash_def)
qed

theorem signature_is_whole_digest_witness:
  "createTransaction zeroPlatform exampleClock addrA addrB 10 (Some 0.1)
     = Inr \<lparr>sender = addrA, receiver = addrB, amount = 10, fee = 0.1, timestamp = 1700000000,
            signature = ''0000000000000000000000000000000000000000000000000000000000000000'',
            tx_id = ''0000000000000000000000000000000000000000000000000000000000000000''\<rparr>
   \<and> length ''0000000000000000000000000000000000000000000000000000000000000000'' = 64"
proof -
  let ?tx = "\<lparr>sender = addrA, receiver = addrB, amount = 10, fee = 0.1, timestamp = 1700000000,
            signature = ''0000000000000000000000000000000000000000000000000000000000000000'',
            tx_id = ''0000000000000000000000000000000000000000000000000000000000000000''\<rparr>"
  have run: "createTransaction zeroPlatform exampleClock addrA addrB 10 (Some 0.1) = Inr ?tx"
    by (simp add: createTransaction_zeroPlatform)
  from signature_is_whole_digest [OF run] have "length (signature ?tx) = 64" by blast
  with run show ?thesis by simp
qed

subsection \<open>The address validator\<close>

text \<open>
  Claim C3, as stated, fails: the validator has a third reserved name, \<^verbatim>\<open>Genesis\<close>, which it
  accepts and which does not start with \<^verbatim>\<open>GSC1\<close>.
\<close>

theorem validateGSCAddress_Genesis_counterexample:
  "''Genesis'' \<noteq> ''GENESIS'' \<and> ''Genesis'' \<noteq> ''COINBASE''
   \<and> validateGSCAddress ''Genesis'' \<and> \<not> startsWith ''GSC1'' ''Genesis''"
  by (simp add: validateGSCAddress_def startsWith_def)

text \<open>
  Claim C3, amended. For every address other than \<^verbatim>\<open>GENESIS\<close>, \<^verbatim>\<open>COINBASE\<close> and
  \<^verbatim>\<open>Genesis\<close>, the validator accepts it only if it starts with \<^verbatim>\<open>GSC1\<close> and has length 35
  or 36.
\<close>

theorem validateGSCAddress_prefix_length:
  assumes "validateGSCAddress a"
    and "a \<noteq> ''GENESIS''" and "a \<noteq> ''COINBASE''" and "a \<noteq> ''Genesis''"
  shows "startsWith ''GSC1'' a \<and> 35 \<le> length a \<and> length a \<le> 36"
  using assms by (simp add: validateGSCAddress_iff)

theorem validateGSCAddress_prefix_length_witness:
  "validateGSCAddress addrA \<and> addrA \<noteq> ''GENESIS'' \<and> addrA \<noteq> ''COINBASE''
   \<and> addrA \<noteq> ''Genesis'' \<and> startsWith ''GSC1'' addrA \<and> length addrA = 36"
proof -
  have v: "validateGSCAddress addrA"
    by (simp add: validateGSCAddress_iff addrA_def startsWith_def)
  have n: "addrA \<noteq> ''GENESIS''" "addrA \<noteq> ''COINBASE''" "addrA \<noteq> ''Genesis''"
    by (simp_all add: addrA_def)
  have l: "length addrA = 36" by (simp add: addrA_def)
  from validateGSCAddress_prefix_length [OF v n] v n l show ?thesis by simp
qed

text \<open>
  The characters after the prefix are not checked: \<^verbatim>\<open>parseInt\<close> returns NaN for a string
  without a leading hexadecimal digit and does not throw, so the \<^verbatim>\<open>catch\<close> that would reject
  the address is never entered.
\<close>

lemma validateGSCAddress_not_hex:
  "parseInt16 (substringFrom ''GSC1zzzzzzzzzzzzzzzzzzzzzzzzzzzzzzz'' 4) = None
   \<and> validateGSCAddress ''GSC1zzzzzzzzzzzzzzzzzzzzzzzzzzzzzzz''"
  by (simp add: validateGSCAddress_iff startsWith_def parseInt16_def substringFrom_def
        isWhitespace_def isHex_def hexDigits_def)

subsection \<open>The minimum fee\<close>

text \<open>
  Claim C6, as stated, fails at the fee 0: \<^verbatim>\<open>fee || 0.1\<close> replaces a fee of 0 by 0.1 before
  the test, and the transaction is built with the fee 0.1.
\<close>

theorem createTransaction_zero_fee_counterexample:
  "addrA \<noteq> ''GENESIS'' \<and> addrA \<noteq> ''COINBASE'' \<and> (0 :: real) < 0.1
   \<and> createTransaction zeroPlatform exampleClock addrA addrB 10 (Some 0)
     = Inr \<lparr>sender = addrA, receiver = addrB, amount = 10, fee = 0.1, timestamp = 1700000000,
            signature = ''0000000000000000000000000000000000000000000000000000000000000000'',
            tx_id = ''0000000000000000000000000000000000000000000000000000000000000000''\<rparr>"
  by (simp add: createTransaction_zeroPlatform) (simp add: addrA_def)

text \<open>
  Claim C6, amended. For every sender other than \<^verbatim>\<open>GENESIS\<close> and \<^verbatim>\<open>COINBASE\<close> and every fee
  argument strictly less than 0.1: if the fee is not 0, createTransaction fails with the
  minimum-fee error and builds no transaction; if the fee is 0, it builds a transaction
  whose fee is 0.1.
\<close>

theorem createTransaction_minimum_fee:
  assumes "sa \<noteq> ''GENESIS''" and "sa \<noteq> ''COINBASE''" and "f < 0.1"
  shows "(f \<noteq> 0 \<longrightarrow> createTransaction pf ck sa ra amt (Some f) = Inl MinimumFee)
       \<and> (f = 0 \<longrightarrow> (\<exists>tx. createTransaction pf ck sa ra amt (Some f) = Inr tx
                          \<and> fee tx = 0.1))"
  using assms by (simp add: createTransaction_eq Let_def)

theorem createTransaction_minimum_fee_witness:
  "addrA \<noteq> ''GENESIS'' \<and> addrA \<noteq> ''COINBASE'' \<and> (0.05 :: real) < 0.1
   \<and> createTransaction zeroPlatform exampleClock addrA addrB 10 (Some 0.05) = Inl MinimumFee"
proof -
  have a: "addrA \<noteq> ''GENESIS''" and b: "addrA \<noteq> ''COINBASE''" by (simp_all add: addrA_def)
  have c: "(0.05 :: real) < 0.1" by simp
  from createTransaction_minimum_fee [OF a b c, of zeroPlatform exampleClock addrB 10] a b c
  show ?thesis by simp
qed

subsection \<open>The mnemonic\<close>

text \<open>
  Claim C7, as stated, fails: generateAddressFromMnemonic does not count the words, and
  returns key material for a list of three words.
\<close>

theorem generateAddressFromMnemonic_three_words_counterexample:
  "length [''abandon'', ''ability'', ''able''] \<noteq> 12
   \<and> generateAddressFromMnemonic zeroPlatform [''abandon'', ''ability'', ''able'']
     = Inr \<lparr>km_address = ''GSC100000000000000000000000000000000'',
            km_privateKey = ''0000000000000000000000000000000000000000000000000000000000000000'',
            km_publicKey = ''0000000000000000000000000000000000000000000000000000000000000000''\<rparr>"
  by (simp add: generateAddressFromMnemonic_def generatePublicKeyFromPrivate_def zeroPlatform_def
        bytesToHex_digest_zero addressOfKey_def substring_def Let_def eval_nat_numeral)

text \<open>
  Claim C7, amended. generateAddressFromMnemonic returns key material for every list of
  words, whatever its length: the private key is the digest of the words joined by single
  spaces. The count is checked by its caller: handleImportFromMnemonic, given a name and a
  phrase that are not blank, fails with "Mnemonic must be exactly 12 words" when the phrase
  does not split into 12 words, before it derives a key, and leaves the service as it was.
\<close>

theorem mnemonic_word_count_checked_by_handler:
  "(\<exists>km. generateAddressFromMnemonic pf ws = Inr km
         \<and> km_privateKey km = bytesToHex (digestBytes (sha256 pf (joinWith '' '' ws)))
         \<and> km_publicKey km = generatePublicKeyFromPrivate pf (km_privateKey km)
         \<and> km_address km = addressOfKey (km_privateKey km))
   \<and> (trim nm \<noteq> [] \<and> trim m \<noteq> [] \<and> length (splitWhitespace False [] (trim m)) \<noteq> 12
        \<longrightarrow> handleImportFromMnemonic pf ck s nm m = (RestoreFailed MnemonicWordCount, s))"
  by (simp add: generateAddressFromMnemonic_def handleImportFromMnemonic_def Let_def)

theorem mnemonic_word_count_checked_by_handler_witness:
  "trim ''me'' \<noteq> [] \<and> trim ''abandon ability able'' \<noteq> []
   \<and> splitWhitespace False [] (trim ''abandon ability able'') = [''abandon'', ''ability'', ''able'']
   \<and> handleImportFromMnemonic zeroPlatform exampleClock (newService exampleClock emptyStorage)
        ''me'' ''abandon ability able''
     = (RestoreFailed MnemonicWordCount, newService exampleClock emptyStorage)"
proof -
  have a: "trim ''me'' \<noteq> []" and b: "trim ''abandon ability able'' = ''abandon ability able''"
    by (simp_all add: trim_def isWhitespace_def)
  have c: "splitWhitespace False [] ''abandon ability able'' = [''abandon'', ''ability'', ''able'']"
    by (simp add: isWhitespace_def)
  from mnemonic_word_count_checked_by_handler
    [of zeroPlatform "[]" "''me''" "''abandon ability able''" exampleClock "newService exampleClock emptyStorage"]
    a b c
  show ?thesis by simp
qed

subsection \<open>Balances after an import\<close>

text \<open>
  Claim C2 says that every balance of every reachable ledger is at least 0, also after an
  imported snapshot has been absorbed. The import loop clamps the cached balance of the
  wallet it builds (\<^verbatim>\<open>Math.max(0, balance)\<close>), as updateWalletBalance clamps both the entry
  and the wallet, but it stores the \<^verbatim>\<open>balances\<close> object of the snapshot as it is: a
  snapshot that holds \<open>- 5\<close> for an address yields a ledger whose entry for that address is
  \<open>- 5\<close>, beside a wallet whose cached balance is 0.
\<close>

theorem import_keeps_negative_balance:
  "blockchain (newService exampleClock
      (emptyStorage\<lparr>gsc_blockchain := Json (emptySnapshot\<lparr>snap_balances := Some [(addrA, - 5)]\<rparr>)\<rparr>))
   = Some \<lparr>chain = [], pending_transactions = [],
           wallets = [\<lparr>name = ''Wallet_aaaaaaaaaa'', address = addrA, private_key = [],
                       public_key = [], balance = 0, created = dateIso exampleClock,
                       encrypted = False\<rparr>],
           total_supply = 21750000000000, mempool = Some (OwnArray []),
           balances = Some [(addrA, - 5)], difficulty = Some 4, mining_reward = Some 50\<rparr>
   \<and> getWalletBalance
        (blockchain (newService exampleClock
           (emptyStorage\<lparr>gsc_blockchain :=
              Json (emptySnapshot\<lparr>snap_balances := Some [(addrA, - 5)]\<rparr>)\<rparr>))) addrA
     = - 5"
  by (simp add: newService_def loadBlockchain_import emptyStorage_def emptySnapshot_def
        orElse_def orElseNum_def importedMempool_def isObservedAddress_def observerWallet_def
        getWalletBalance_def)
     (simp add: addrA_def startsWith_def substring_def)

text \<open>The refresh of a running engine stores the object of the snapshot in the same way.\<close>

lemma refresh_keeps_negative_balance:
  "getWalletBalance
     (blockchain (refreshBlockchainData exampleClock
        \<lparr>blockchain = Some ledgerA,
         localStorage = emptyStorage\<lparr>gsc_blockchain :=
           Json (emptySnapshot\<lparr>snap_balances := Some [(addrA, - 5)]\<rparr>)\<rparr>\<rparr>)) addrA
   = - 5"
proof -
  have "gsc_blockchain (emptyStorage\<lparr>gsc_blockchain :=
           Json (emptySnapshot\<lparr>snap_balances := Some [(addrA, - 5)]\<rparr>)\<rparr>)
        = Json (emptySnapshot\<lparr>snap_balances := Some [(addrA, - 5)]\<rparr>)"
    by simp
  from refreshBlockchainData_import [OF this, of exampleClock ledgerA]
  show ?thesis by (auto simp: getWalletBalance_def)
qed

lemma import_breaks_nonNegativeBalances:
  "\<not> nonNegativeBalances (blockchain (importedEngine addrA (- 5)))"
  by (simp add: importedEngine_blockchain example_addresses nonNegativeBalances_def orElse_def)

subsection \<open>Export, then import\<close>

text \<open>
  Claim C8. For every ledger, the snapshot that exportBlockchain writes, absorbed by a new
  engine (the import path of loadBlockchain) or by the refresh of a running engine, yields
  a ledger with the same \<^verbatim>\<open>balances\<close> and a chain of the same length. A \<^verbatim>\<open>balances\<close> field
  that is missing counts as the empty object, as exportBlockchain writes it.
\<close>

theorem export_import_roundtrip:
  "(\<exists>b'. blockchain (newService ck
            (st'\<lparr>gsc_blockchain :=
                   Json (exportBlockchain \<lparr>blockchain = Some b, localStorage = st\<rparr>)\<rparr>))
          = Some b'
        \<and> orElse (balances b') [] = orElse (balances b) []
        \<and> length (chain b') = length (chain b))
   \<and> (\<exists>b'. blockchain (refreshBlockchainData ck
            \<lparr>blockchain = Some b0,
             localStorage = st'\<lparr>gsc_blockchain :=
                   Json (exportBlockchain \<lparr>blockchain = Some b, localStorage = st\<rparr>)\<rparr>\<rparr>)
          = Some b'
        \<and> orElse (balances b') [] = orElse (balances b) []
        \<and> length (chain b') = length (chain b))"
proof -
  let ?snap = "exportBlockchain \<lparr>blockchain = Some b, localStorage = st\<rparr>"
  let ?st = "st'\<lparr>gsc_blockchain := Json ?snap\<rparr>"
  have item: "gsc_blockchain ?st = Json ?snap" by simp
  have load: "\<exists>b'. blockchain (newService ck ?st) = Some b'
        \<and> orElse (balances b') [] = orElse (balances b) []
        \<and> length (chain b') = length (chain b)"
    unfolding newService_def loadBlockchain_import [OF item]
    by (simp add: exportBlockchain_def orElse_def)
  from refreshBlockchainData_import [OF item, of ck b0]
  obtain b' where "blockchain (refreshBlockchainData ck \<lparr>blockchain = Some b0, localStorage = ?st\<rparr>)
                     = Some b'"
    and "chain b' = orElse (snap_chain ?snap) (chain b0)"
    and "balances b' = (case snap_balances ?snap of Some m \<Rightarrow> Some m | None \<Rightarrow> balances b0)"
    by blast
  then have "\<exists>b'. blockchain (refreshBlockchainData ck \<lparr>blockchain = Some b0, localStorage = ?st\<rparr>)
          = Some b'
        \<and> orElse (balances b') [] = orElse (balances b) []
        \<and> length (chain b') = length (chain b)"
    by (simp add: exportBlockchain_def orElse_def)
  with load show ?thesis by blast
qed

theorem export_import_roundtrip_witness:
  "\<exists>b'. blockchain (newService exampleClock
            (emptyStorage\<lparr>gsc_blockchain :=
               Json (exportBlockchain \<lparr>blockchain = Some ledgerA, localStorage = emptyStorage\<rparr>)\<rparr>))
          = Some b'
        \<and> orElse (balances b') [] = [(addrA, 5)]
        \<and> length (chain b') = 1"
  using export_import_roundtrip
    [where ck = exampleClock and st' = emptyStorage and b = ledgerA and st = emptyStorage
       and ?b0.0 = ledgerA]
  by (simp add: ledgerA_def orElse_def)

subsection \<open>A send that fails\<close>

text \<open>
  Claim C4, as stated, fails. sendTransaction writes the sender's entry of \<^verbatim>\<open>balances\<close> while
  it reads the balance (when the ledger gives 0 for the sender and the wallet object holds
  a positive cached balance), before any check. In a new engine, a send of 10 from a wallet
  object with cached balance 100 to \<^verbatim>\<open>GSC1abc\<close> passes the balance check and fails in the
  validation of the built transaction; \<^verbatim>\<open>balances\<close> was empty at the start of the call and
  holds 100 for the sender at its end.
\<close>

theorem failed_send_bootstrap_counterexample:
  "fst (readSenderBalance (walletOf addrA 100)
          (the (blockchain (newService exampleClock emptyStorage)))) = 100
   \<and> numberAdd zeroPlatform 10 0.1 \<le> 100
   \<and> sendTransaction zeroPlatform exampleClock (newService exampleClock emptyStorage)
        (Some (walletOf addrA 100)) ''GSC1abc'' 10
     = (Inr False, Some (TransactionFailed ValidationFailed),
        (newService exampleClock emptyStorage)
          \<lparr>blockchain := Some
             \<lparr>chain = [genesisBlock exampleClock], pending_transactions = [], wallets = [],
              total_supply = 21750000000000, mempool = None,
              balances = Some [(addrA, 100)], difficulty = Some 4,
              mining_reward = Some 50\<rparr>\<rparr>)
   \<and> map_option balances (blockchain (newService exampleClock emptyStorage)) = Some (Some [])"
proof -
  let ?s = "newService exampleClock emptyStorage"
  let ?w = "walletOf addrA 100"
  let ?b = "\<lparr>chain = [genesisBlock exampleClock], pending_transactions = [], wallets = [],
           total_supply = 21750000000000, mempool = None, balances = Some [],
           difficulty = Some 4, mining_reward = Some 50\<rparr>"
  have bc: "blockchain ?s = Some ?b" by (rule genesisEngine_blockchain)
  have a: "address ?w = addrA" "balance ?w = 100" by (simp_all add: walletOf_def)
  have bal: "getWalletBalance (Some ?b) addrA = 0"
    by (simp add: getWalletBalance_def)
  have rd: "readSenderBalance ?w ?b = (100, ?b\<lparr>balances := Some [(addrA, 100)]\<rparr>)"
    by (simp add: readSenderBalance_eq a bal orElse_def)
  have "sendTransaction zeroPlatform exampleClock ?s (Some ?w) ''GSC1abc'' 10
          = (Inr False, Some (TransactionFailed ValidationFailed),
             ?s\<lparr>blockchain := Some (?b\<lparr>balances := Some [(addrA, 100)]\<rparr>)\<rparr>)"
    by (rule sendTransaction_validation_failure [OF bc rd])
       (simp_all add: a example_addresses zeroPlatform_arith)
  then show ?thesis by (simp add: bc rd zeroPlatform_arith)
qed

text \<open>
  Claim C4, amended. For every invocation of sendTransaction that returns \<^verbatim>\<open>false\<close>, and so
  for every one that fails after the balance check, the service at the end of the call is
  the service at its start, except that the sender's entry of \<^verbatim>\<open>balances\<close> has been set to
  the wallet's cached balance when the ledger gave 0 for the sender and the cached balance
  was positive. No debit and no credit is applied, no transaction is added to the pending
  pool and nothing is written to the local store.
\<close>

theorem failed_send_writes_only_bootstrap_entry:
  assumes "sendTransaction pf ck s wo r amt = (Inr False, t, s')"
  shows "s' = (case (blockchain s, wo) of
                 (Some b, Some w) \<Rightarrow>
                   s\<lparr>blockchain := Some
                      (if getWalletBalance (Some b) (address w) = 0 \<and> 0 < balance w
                       then b\<lparr>balances := Some (AList.update (address w) (balance w)
                                                  (orElse (balances b) []))\<rparr>
                       else b)\<rparr>
               | _ \<Rightarrow> s)"
proof (cases "blockchain s = None \<or> wo = None")
  case True
  with assms sendTransaction_no_engine [OF True, of pf ck r amt] show ?thesis
    by (auto split: option.splits)
next
  case False
  then obtain b w where bc: "blockchain s = Some b" and wo: "wo = Some w" by auto
  obtain bal b1 where rd: "readSenderBalance w b = (bal, b1)" by (cases "readSenderBalance w b")
  obtain tx where tx: "createTransaction pf ck (address w) r amt (Some 0.1) = Inr tx"
    using createTransaction_default_fee by blast
  have b1: "b1 = (if getWalletBalance (Some b) (address w) = 0 \<and> 0 < balance w
                   then b\<lparr>balances := Some (AList.update (address w) (balance w)
                                              (orElse (balances b) []))\<rparr>
                   else b)"
    using rd by (auto simp: readSenderBalance_eq split: if_splits)
  from assms have "s' = s\<lparr>blockchain := Some b1\<rparr>"
    unfolding wo sendTransaction_eq [OF bc rd tx] by (simp split: if_splits)
  then show ?thesis by (simp add: bc wo b1)
qed

theorem failed_send_writes_only_bootstrap_entry_witness:
  "sendTransaction zeroPlatform exampleClock (importedEngine addrA 10.1)
        (Some (observerWallet exampleClock addrA 10.1)) addrB 11
      = (Inr False, Some (TransactionFailed (InsufficientBalance (11 + 0.1) 10.1)),
         importedEngine addrA 10.1)
   \<and> map_option balances (blockchain (importedEngine addrA 10.1)) = Some (Some [(addrA, 10.1)])"
proof -
  let ?s = "importedEngine addrA 10.1"
  let ?w = "observerWallet exampleClock addrA 10.1"
  let ?b = "\<lparr>chain = [], pending_transactions = [], wallets = [?w],
           total_supply = 21750000000000, mempool = Some (OwnArray []),
           balances = Some [(addrA, 10.1)], difficulty = Some 4,
           mining_reward = Some 50\<rparr>"
  have bc: "blockchain ?s = Some ?b"
    by (rule importedEngine_blockchain) (rule example_addresses)
  have a: "address ?w = addrA" by (simp add: observerWallet_def)
  have bal: "getWalletBalance (Some ?b) addrA = 10.1"
    by (simp add: getWalletBalance_def)
  have rd: "readSenderBalance ?w ?b = (10.1, ?b)"
    by (simp add: readSenderBalance_eq a bal)
  have same: "?s\<lparr>blockchain := Some ?b\<rparr> = ?s"
    using bc by (cases ?s) simp
  have run: "sendTransaction zeroPlatform exampleClock ?s (Some ?w) addrB 11
      = (Inr False, Some (TransactionFailed (InsufficientBalance (11 + 0.1) 10.1)),
         ?s\<lparr>blockchain := Some ?b\<rparr>)"
    using sendTransaction_insufficient [OF bc rd, of addrB 11 zeroPlatform exampleClock]
    by (simp add: example_addresses zeroPlatform_arith)
  from failed_send_writes_only_bootstrap_entry [OF run]
  have "?s\<lparr>blockchain := Some ?b\<rparr> = ?s"
    by (simp add: bc a bal)
  with run show ?thesis by (simp add: bc)
qed

subsection \<open>The balance check\<close>

text \<open>
  Claim C5, as stated, fails: it holds for every wallet only if the wallet's address passes
  the address validator. The import of a snapshot builds a wallet for every key of
  \<^verbatim>\<open>balances\<close> that starts with \<^verbatim>\<open>GSC1\<close>, whatever its length; a send of 10 from the wallet
  built for \<^verbatim>\<open>GSC1abc\<close>, whose balance is 10.1, fails in the validation of the built
  transaction.
\<close>

theorem send_exact_balance_observer_wallet_counterexample:
  "getWalletBalance (blockchain (importedEngine ''GSC1abc'' 10.1)) ''GSC1abc''
     = numberAdd zeroPlatform 10 0.1
   \<and> (0 :: real) < 10
   \<and> sendTransaction zeroPlatform exampleClock (importedEngine ''GSC1abc'' 10.1)
        (Some (observerWallet exampleClock ''GSC1abc'' 10.1)) addrB 10
     = (Inr False, Some (TransactionFailed ValidationFailed), importedEngine ''GSC1abc'' 10.1)"
proof -
  let ?s = "importedEngine ''GSC1abc'' 10.1"
  let ?w = "observerWallet exampleClock ''GSC1abc'' 10.1"
  let ?b = "\<lparr>chain = [], pending_transactions = [], wallets = [?w],
           total_supply = 21750000000000, mempool = Some (OwnArray []),
           balances = Some [(''GSC1abc'', 10.1)], difficulty = Some 4,
           mining_reward = Some 50\<rparr>"
  have bc: "blockchain ?s = Some ?b"
    by (rule importedEngine_blockchain) (rule example_addresses)
  have a: "address ?w = ''GSC1abc''" by (simp add: observerWallet_def)
  have bal: "getWalletBalance (Some ?b) ''GSC1abc'' = 10.1"
    by (simp add: getWalletBalance_def)
  have rd: "readSenderBalance ?w ?b = (10.1, ?b)"
    by (simp add: readSenderBalance_eq a bal)
  have "sendTransaction zeroPlatform exampleClock ?s (Some ?w) addrB 10
          = (Inr False, Some (TransactionFailed ValidationFailed), ?s\<lparr>blockchain := Some ?b\<rparr>)"
    by (rule sendTransaction_validation_failure [OF bc rd])
       (simp_all add: a example_addresses zeroPlatform_arith)
  moreover have "?s\<lparr>blockchain := Some ?b\<rparr> = ?s"
    using bc by (cases ?s) simp
  ultimately show ?thesis by (simp add: bc bal zeroPlatform_arith)
qed

text \<open>
  Claim C5, amended. The sum of the amount and the fee is the one that the program
  computes, \<^verbatim>\<open>amount + fee\<close> rounded to a double (\<open>numberAdd pf amt 0.1\<close>), whatever the
  rounding is. In an engine that holds a ledger, for every wallet, every receiver that
  starts with \<^verbatim>\<open>GSC1\<close> and every positive amount, with the fee 0.1:
  \<^item> if the ledger's balance of the sender is exactly that computed sum, and the
    addresses of the sender and of the receiver pass the address validator and differ,
    the send returns \<^verbatim>\<open>true\<close> and the sender's balance afterwards is not negative;
  \<^item> if the balance that the send reads (\<open>fst (readSenderBalance w b)\<close>: the ledger's
    balance of the sender, or the wallet's cached balance when the ledger's is 0 and the
    cached one is positive) is strictly less than that computed sum, the send returns
    \<^verbatim>\<open>false\<close> with the error "Insufficient balance", applies no debit, and the sender's
    balance in the ledger afterwards is the balance that was read.
  The exact sum decides nothing: a balance of 0.3 does not cover an amount of 0.2, because
  the doubles give \<^verbatim>\<open>0.2 + 0.1\<close> above 0.3, and a balance of 0.7999999999999999 covers an
  amount of 0.7, because the doubles give \<^verbatim>\<open>0.7 + 0.1\<close> equal to it.
\<close>

theorem send_balance_boundary:
  assumes "blockchain s = Some b" and "startsWith ''GSC1'' rcv" and "0 < amt"
  shows "(getWalletBalance (Some b) (address w) = numberAdd pf amt 0.1
          \<and> validateGSCAddress (address w) \<and> validateGSCAddress rcv \<and> rcv \<noteq> address w
          \<longrightarrow> (\<exists>t s'. sendTransaction pf ck s (Some w) rcv amt = (Inr True, t, s')
                     \<and> 0 \<le> getWalletBalance (blockchain s') (address w)))
       \<and> (fst (readSenderBalance w b) < numberAdd pf amt 0.1
          \<longrightarrow> sendTransaction pf ck s (Some w) rcv amt =
                (Inr False,
                 Some (TransactionFailed
                         (InsufficientBalance (numberAdd pf amt 0.1)
                            (fst (readSenderBalance w b)))),
                 s\<lparr>blockchain := Some (snd (readSenderBalance w b))\<rparr>)
              \<and> getWalletBalance (Some (snd (readSenderBalance w b))) (address w)
                  = fst (readSenderBalance w b))"
proof (intro conjI impI)
  assume h: "getWalletBalance (Some b) (address w) = numberAdd pf amt 0.1
          \<and> validateGSCAddress (address w) \<and> validateGSCAddress rcv \<and> rcv \<noteq> address w"
  have rd: "readSenderBalance w b = (fst (readSenderBalance w b), snd (readSenderBalance w b))"
    by simp
  have enough: "numberAdd pf amt 0.1 \<le> fst (readSenderBalance w b)"
  proof (cases "getWalletBalance (Some b) (address w) = 0 \<and> 0 < balance w")
    case True
    with h show ?thesis by (simp add: readSenderBalance_eq)
  next
    case False
    with h show ?thesis by (auto simp: readSenderBalance_eq)
  qed
  from h have different: "address w \<noteq> rcv" by auto
  from sendTransaction_success [OF assms(1) rd assms(2,3) enough different, of ck] h
  obtain t s' where run: "sendTransaction pf ck s (Some w) rcv amt = (Inr True, t, s')"
    and after: "getWalletBalance (blockchain s') (address w)
                  = max 0 (numberSub pf (numberSub pf (fst (readSenderBalance w b)) amt) 0.1)"
    by blast
  from after have "0 \<le> getWalletBalance (blockchain s') (address w)" by simp
  with run show "\<exists>t s'. sendTransaction pf ck s (Some w) rcv amt = (Inr True, t, s')
                     \<and> 0 \<le> getWalletBalance (blockchain s') (address w)"
    by blast
next
  assume h: "fst (readSenderBalance w b) < numberAdd pf amt 0.1"
  have rd: "readSenderBalance w b = (fst (readSenderBalance w b), snd (readSenderBalance w b))"
    by simp
  from sendTransaction_insufficient [OF assms(1) rd assms(2,3) h]
  show "sendTransaction pf ck s (Some w) rcv amt =
                (Inr False,
                 Some (TransactionFailed
                         (InsufficientBalance (numberAdd pf amt 0.1)
                            (fst (readSenderBalance w b)))),
                 s\<lparr>blockchain := Some (snd (readSenderBalance w b))\<rparr>)" .
next
  show "getWalletBalance (Some (snd (readSenderBalance w b))) (address w)
                  = fst (readSenderBalance w b)"
    by (rule readSenderBalance_read)
qed

theorem send_balance_boundary_witness:
  "(\<exists>b. blockchain (importedEngine addrA 10.1) = Some b
        \<and> getWalletBalance (Some b) (address (observerWallet exampleClock addrA 10.1))
            = numberAdd zeroPlatform 10 0.1
        \<and> fst (readSenderBalance (observerWallet exampleClock addrA 10.1) b)
            < numberAdd zeroPlatform 11 0.1)
   \<and> startsWith ''GSC1'' addrB \<and> (0 :: real) < 10 \<and> (0 :: real) < 11
   \<and> validateGSCAddress (address (observerWallet exampleClock addrA 10.1)) \<and> validateGSCAddress addrB
   \<and> addrB \<noteq> address (observerWallet exampleClock addrA 10.1)
   \<and> (\<exists>t s'. sendTransaction zeroPlatform exampleClock (importedEngine addrA 10.1)
                 (Some (observerWallet exampleClock addrA 10.1)) addrB 10 = (Inr True, t, s')
             \<and> 0 \<le> getWalletBalance (blockchain s') addrA)
   \<and> sendTransaction zeroPlatform exampleClock (importedEngine addrA 10.1)
        (Some (observerWallet exampleClock addrA 10.1)) addrB 11
      = (Inr False, Some (TransactionFailed (InsufficientBalance (11 + 0.1) 10.1)),
         importedEngine addrA 10.1)"
proof -
  let ?s = "importedEngine addrA 10.1"
  let ?w = "observerWallet exampleClock addrA 10.1"
  let ?b = "\<lparr>chain = [], pending_transactions = [], wallets = [?w],
           total_supply = 21750000000000, mempool = Some (OwnArray []),
           balances = Some [(addrA, 10.1)], difficulty = Some 4,
           mining_reward = Some 50\<rparr>"
  have bc: "blockchain ?s = Some ?b"
    by (rule importedEngine_blockchain) (rule example_addresses)
  have a: "address ?w = addrA" by (simp add: observerWallet_def)
  have bal: "getWalletBalance (Some ?b) addrA = 10.1"
    by (simp add: getWalletBalance_def)
  have rd: "readSenderBalance ?w ?b = (10.1, ?b)"
    by (simp add: readSenderBalance_eq a bal)
  have same: "?s\<lparr>blockchain := Some ?b\<rparr> = ?s"
    using bc by (cases ?s) simp
  have p10: "(0 :: real) < 10" and p11: "(0 :: real) < 11" by simp_all
  note ten = send_balance_boundary
    [OF bc example_addresses(2) p10, of ?w zeroPlatform exampleClock]
  note eleven = send_balance_boundary
    [OF bc example_addresses(2) p11, of ?w zeroPlatform exampleClock]
  have first: "\<exists>t s'. sendTransaction zeroPlatform exampleClock ?s (Some ?w) addrB 10 = (Inr True, t, s')
             \<and> 0 \<le> getWalletBalance (blockchain s') addrA"
    using ten by (simp add: a bal example_addresses zeroPlatform_arith)
  have second: "sendTransaction zeroPlatform exampleClock ?s (Some ?w) addrB 11
      = (Inr False, Some (TransactionFailed (InsufficientBalance (11 + 0.1) 10.1)), ?s)"
    using eleven by (simp add: rd same zeroPlatform_arith)
  have ex: "\<exists>b. blockchain ?s = Some b
        \<and> getWalletBalance (Some b) (address ?w) = numberAdd zeroPlatform 10 0.1
        \<and> fst (readSenderBalance ?w b) < numberAdd zeroPlatform 11 0.1"
    using bc by (simp add: a bal rd zeroPlatform_arith)
  from ex first second show ?thesis
    by (simp add: a example_addresses)
qed

subsection \<open>What sendTransaction returns\<close>

text \<open>
  Claim C10. For every input, sendTransaction returns a boolean and no exception leaves it.
  It returns \<^verbatim>\<open>true\<close> exactly when the engine holds a ledger, the wallet is not \<^verbatim>\<open>null\<close>,
  the receiver starts with \<^verbatim>\<open>GSC1\<close>, the amount is positive, the balance read is not less
  than the sum \<^verbatim>\<open>amount + fee\<close> that the program computes, and the built transaction passes
  the validation (the two addresses
  pass the address validator and differ); in every other case (an invalid receiver
  prefix, a non-positive amount, insufficient funds, a failed validation, a missing ledger
  or wallet) it returns \<^verbatim>\<open>false\<close>.
\<close>

theorem sendTransaction_returns:
  "(\<exists>res. fst (sendTransaction pf ck s wo rcv amt) = Inr res)
   \<and> (fst (sendTransaction pf ck s wo rcv amt) = Inr True \<longleftrightarrow>
        (\<exists>b w. blockchain s = Some b \<and> wo = Some w \<and> startsWith ''GSC1'' rcv \<and> 0 < amt
           \<and> numberAdd pf amt 0.1 \<le> fst (readSenderBalance w b) \<and> address w \<noteq> rcv
           \<and> validateGSCAddress (address w) \<and> validateGSCAddress rcv))
   \<and> (fst (sendTransaction pf ck s wo rcv amt) \<noteq> Inr True \<longrightarrow>
        fst (sendTransaction pf ck s wo rcv amt) = Inr False)"
proof (cases "blockchain s = None \<or> wo = None")
  case True
  from sendTransaction_no_engine [OF True, of pf ck rcv amt] True show ?thesis by auto
next
  case False
  then obtain b w where bc: "blockchain s = Some b" and wo: "wo = Some w" by auto
  obtain bal b1 where rd: "readSenderBalance w b = (bal, b1)" by (cases "readSenderBalance w b")
  obtain tx where tx: "createTransaction pf ck (address w) rcv amt (Some 0.1) = Inr tx"
    and f: "sender tx = address w" "receiver tx = rcv" "amount tx = amt" "fee tx = 0.1"
           "length (tx_id tx) = 64"
    using createTransaction_default_fee by blast
  have v: "validateGSCTransaction tx (address w) \<longleftrightarrow>
             0 < amt \<and> address w \<noteq> rcv \<and> validateGSCAddress (address w) \<and> validateGSCAddress rcv"
    by (simp add: validateGSCTransaction_iff f)
  show ?thesis
    unfolding wo sendTransaction_eq [OF bc rd tx] using v by (auto simp: bc rd)
qed

theorem sendTransaction_returns_witness:
  "fst (sendTransaction zeroPlatform exampleClock (importedEngine addrA 10.1)
          (Some (observerWallet exampleClock addrA 10.1)) addrB 10) = Inr True
   \<and> fst (sendTransaction zeroPlatform exampleClock (importedEngine addrA 10.1)
          (Some (observerWallet exampleClock addrA 10.1)) ''bad'' 10) = Inr False"
proof -
  let ?s = "importedEngine addrA 10.1"
  let ?w = "observerWallet exampleClock addrA 10.1"
  let ?b = "\<lparr>chain = [], pending_transactions = [], wallets = [?w],
           total_supply = 21750000000000, mempool = Some (OwnArray []),
           balances = Some [(addrA, 10.1)], difficulty = Some 4,
           mining_reward = Some 50\<rparr>"
  have bc: "blockchain ?s = Some ?b"
    by (rule importedEngine_blockchain) (rule example_addresses)
  have a: "address ?w = addrA" by (simp add: observerWallet_def)
  have bal: "getWalletBalance (Some ?b) addrA = 10.1"
    by (simp add: getWalletBalance_def)
  have rd: "readSenderBalance ?w ?b = (10.1, ?b)"
    by (simp add: readSenderBalance_eq a bal)
  have bad: "\<not> startsWith ''GSC1'' ''bad''" by (simp add: startsWith_def)
  from sendTransaction_returns [of zeroPlatform exampleClock ?s "Some ?w" addrB 10]
  have good: "fst (sendTransaction zeroPlatform exampleClock ?s (Some ?w) addrB 10) = Inr True"
    by (simp add: bc rd a example_addresses zeroPlatform_arith)
  from sendTransaction_returns [of zeroPlatform exampleClock ?s "Some ?w" "''bad''" 10]
  have "fst (sendTransaction zeroPlatform exampleClock ?s (Some ?w) ''bad'' 10) = Inr False"
    by (simp add: bc bad)
  with good show ?thesis by simp
qed

end
